theory Spec2Isabelle
  imports Complex_Main "HOL-Library.Word" "HOL-Library.AList" "HOL-Library.Multiset"
    "HOL-Library.Sublist" "HOL-Library.List_Lexorder" "HOL-Library.Char_ord"
    "HOL-Library.Product_Lexorder"
begin

unbundle bit_operations_syntax

section \<open>Lead Radar: a shallow embedding of \<open>lead_radar_unified.py\<close>\<close>

text \<open>
  Conventions of the embedding.
  \<^item> A Python \<open>str\<close> is a \<open>string\<close>: the list of the bytes of its UTF-8 encoding, so
    \<open>raw.encode("utf-8")\<close> is the identity. Searching, replacing and stripping an ASCII
    pattern act on the bytes as they act on the characters.
  \<^item> What depends on Unicode tables or on the version of a library (\<open>str.lower\<close>,
    \<open>str.upper\<close>, \<open>str.strip\<close>, \<open>urlparse\<close>, \<open>urljoin\<close>, pydantic's \<open>HttpUrl\<close>) is a field
    of the record \<open>pylib\<close>, an argument of every function that uses it. The theorems hold
    for every such library; \<open>ascii_lib\<close> is what CPython does on plain ASCII arguments,
    and the concrete runs use it.
  \<^item> A Python \<open>float\<close> is a \<open>rat\<close>: the value of its decimal literal. On the floats of the
    concrete runs below, IEEE double arithmetic gives the same integers.
  \<^item> Exceptions are values of \<open>py_error\<close>; a function that may raise returns \<open>py_error + 'a\<close>,
    together with the state it leaves where that matters.
  \<^item> The global dictionaries \<open>LEADS\<close> and \<open>JOBS\<close> are passed and returned explicitly.
    \<open>LEADS\<close> is an association list in insertion order (a Python \<open>dict\<close> iterates in that
    order); \<open>JOBS\<close> is only ever looked up by key and is a map.
  \<^item> Wall-clock readings (\<open>datetime.now\<close>, \<open>time.time\<close>) are arguments or a clock field.
\<close>

datatype py_error =
    ValueError string
  | RuntimeError string
  | ValidationError string
  | RecursionError

subsection \<open>Strings\<close>

text \<open>Case mapping and whitespace of ASCII text: the parts of \<open>ascii_lib\<close>.\<close>

definition ascii_upper :: string where
  "ascii_upper = ''ABCDEFGHIJKLMNOPQRSTUVWXYZ''"

definition ascii_lower :: string where
  "ascii_lower = ''abcdefghijklmnopqrstuvwxyz''"

definition lower_char :: "char \<Rightarrow> char" where
  "lower_char c = (case map_of (zip ascii_upper ascii_lower) c of Some d \<Rightarrow> d | None \<Rightarrow> c)"

definition upper_char :: "char \<Rightarrow> char" where
  "upper_char c = (case map_of (zip ascii_lower ascii_upper) c of Some d \<Rightarrow> d | None \<Rightarrow> c)"

definition py_lower :: "string \<Rightarrow> string" where
  "py_lower s = map lower_char s"

definition py_upper :: "string \<Rightarrow> string" where
  "py_upper s = map upper_char s"

text \<open>\<open>str.strip()\<close>: the ASCII whitespace characters are 9-13, 28-31 and the space.\<close>

definition py_isspace :: "char \<Rightarrow> bool" where
  "py_isspace c \<longleftrightarrow>
     c \<in> set [CHR 0x09, CHR 0x0A, CHR 0x0B, CHR 0x0C, CHR 0x0D,
               CHR 0x1C, CHR 0x1D, CHR 0x1E, CHR 0x1F, CHR '' '']"

definition py_strip :: "string \<Rightarrow> string" where
  "py_strip s = rev (dropWhile py_isspace (rev (dropWhile py_isspace s)))"

text \<open>\<open>s.strip(chars)\<close>, \<open>s.rstrip(chars)\<close>.\<close>

definition rstrip_chars :: "string \<Rightarrow> string \<Rightarrow> string" where
  "rstrip_chars cs s = rev (dropWhile (\<lambda>c. c \<in> set cs) (rev s))"

definition strip_chars :: "string \<Rightarrow> string \<Rightarrow> string" where
  "strip_chars cs s = rstrip_chars cs (dropWhile (\<lambda>c. c \<in> set cs) s)"

text \<open>
  \<open>s.replace(old, new)\<close> for a non-empty \<open>old\<close>: the occurrences are found from the left
  and do not overlap. (The program calls it with \<open>"www."\<close> and \<open>" "\<close> only; for an empty
  \<open>old\<close> the function below returns \<open>s\<close>.)
\<close>

function py_replace :: "string \<Rightarrow> string \<Rightarrow> string \<Rightarrow> string" where
  "py_replace old new [] = []"
| "py_replace old new (c # cs) =
     (if old \<noteq> [] \<and> prefix old (c # cs)
      then new @ py_replace old new (drop (length old) (c # cs))
      else c # py_replace old new cs)"
  by pat_completeness auto
termination
  by (relation "measure (\<lambda>(old, new, s). length s)") (auto simp: neq_Nil_conv)

text \<open>\<open>sep.join(xs)\<close>.\<close>

fun py_join :: "string \<Rightarrow> string list \<Rightarrow> string" where
  "py_join sep [] = []"
| "py_join sep [x] = x"
| "py_join sep (x # y # ys) = x @ sep @ py_join sep (y # ys)"

subsection \<open>The library\<close>

record pylib =
  str_lower :: "string \<Rightarrow> string"
  str_upper :: "string \<Rightarrow> string"
  str_strip :: "string \<Rightarrow> string"
  urlparse :: "string \<Rightarrow> py_error + (string \<times> string)"
  urljoin :: "string \<Rightarrow> string \<Rightarrow> py_error + string"
  HttpUrl :: "string \<Rightarrow> py_error + string"

text \<open>
  \<open>urlparse Lib url\<close> is the pair of \<open>urlparse(url).scheme\<close> and \<open>urlparse(url).netloc\<close>,
  or the \<open>ValueError\<close> that \<open>urlparse\<close> raises; \<open>HttpUrl Lib w\<close> is the value that pydantic
  stores in a field of type \<open>HttpUrl\<close> built from \<open>w\<close>, or its \<open>ValidationError\<close>.
\<close>

definition netloc_of :: "pylib \<Rightarrow> string \<Rightarrow> py_error + string" where
  "netloc_of Lib url =
     (case urlparse Lib url of Inl e \<Rightarrow> Inl e | Inr (scheme, netloc) \<Rightarrow> Inr netloc)"

text \<open>
  The ASCII library. \<open>urlparse_head\<close> follows \<open>urlsplit\<close> of CPython 3.11: leading C0
  control characters and spaces are dropped, tab, CR and LF are removed, a leading
  \<open>scheme:\<close> is split off, and when the rest starts with \<open>//\<close> the network location runs up
  to the first of \<open>/ ? #\<close>; an unmatched square bracket raises \<open>ValueError\<close>. It is the
  interpreter's function on URLs without a pair of square brackets.
\<close>

definition scheme_chars :: string where
  "scheme_chars = ascii_lower @ ascii_upper @ ''0123456789+-.''"

definition split_scheme :: "string \<Rightarrow> string \<times> string" where
  "split_scheme url =
     (let pre = takeWhile (\<lambda>c. c \<noteq> CHR '':'') url
      in if pre \<noteq> [] \<and> length pre < length url
            \<and> hd pre \<in> set (ascii_lower @ ascii_upper)
            \<and> list_all (\<lambda>c. c \<in> set scheme_chars) pre
         then (py_lower pre, drop (Suc (length pre)) url)
         else ([], url))"

text \<open>The \<open>scheme\<close> and the \<open>netloc\<close> of \<open>urlparse(url)\<close>, for ASCII URLs.\<close>

definition urlparse_head :: "string \<Rightarrow> py_error + (string \<times> string)" where
  "urlparse_head url0 =
     (let url1 = dropWhile (\<lambda>c. (of_char c :: nat) \<le> 32) url0;
          url2 = filter (\<lambda>c. c \<notin> set [CHR 0x09, CHR 0x0D, CHR 0x0A]) url1;
          (scheme, url) = split_scheme url2
      in if take 2 url = ''//''
         then (let netloc = takeWhile (\<lambda>c. c \<notin> set ''/?#'') (drop 2 url)
               in if (CHR ''['' \<in> set netloc \<and> CHR '']'' \<notin> set netloc)
                     \<or> (CHR '']'' \<in> set netloc \<and> CHR ''['' \<notin> set netloc)
                  then Inl (ValueError ''Invalid IPv6 URL'')
                  else Inr (scheme, netloc))
         else Inr (scheme, []))"

text \<open>
  \<open>urljoin\<close> parses both arguments, so it raises where \<open>urlparse\<close> does. The result below
  is the interpreter's for an \<open>http\<close> or \<open>https\<close> base and a reference that is an absolute
  URL or starts with a single slash.
\<close>

definition ascii_urljoin :: "string \<Rightarrow> string \<Rightarrow> py_error + string" where
  "ascii_urljoin base ref =
     (if base = [] then Inr ref
      else if ref = [] then Inr base
      else
        (case urlparse_head base of
           Inl e \<Rightarrow> Inl e
         | Inr (bscheme, bnetloc) \<Rightarrow>
             (case urlparse_head ref of
                Inl e \<Rightarrow> Inl e
              | Inr (scheme, netloc) \<Rightarrow>
                  if scheme = [] \<and> bscheme \<in> {''http'', ''https''}
                     \<and> prefix ''/'' ref \<and> \<not> prefix ''//'' ref
                  then Inr (bscheme @ ''://'' @ bnetloc @ ref)
                  else Inr ref)))"

text \<open>
  pydantic's \<open>HttpUrl\<close> on a plain URL (no port, no user, no query): the scheme must be
  \<open>http\<close> or \<open>https\<close> and the host present; the value stored has the host in lower case
  and the path \<open>/\<close> when there is none.
\<close>

definition ascii_http_url :: "string \<Rightarrow> py_error + string" where
  "ascii_http_url w =
     (case split_scheme w of
        (scheme, rest) \<Rightarrow>
          (let netloc = takeWhile (\<lambda>c. c \<notin> set ''/?#'') (drop 2 rest);
               path = drop (2 + length netloc) rest
           in if scheme \<in> {''http'', ''https''} \<and> take 2 rest = ''//'' \<and> netloc \<noteq> []
              then Inr (scheme @ ''://'' @ py_lower netloc @ (if path = [] then ''/'' else path))
              else Inl (ValidationError ''URL scheme should be http or https'')))"

definition ascii_lib :: pylib where
  "ascii_lib =
     \<lparr>str_lower = py_lower, str_upper = py_upper, str_strip = py_strip,
      urlparse = urlparse_head, urljoin = ascii_urljoin, HttpUrl = ascii_http_url\<rparr>"

text \<open>\<open>sub in s\<close> on strings.\<close>

fun py_contains :: "string \<Rightarrow> string \<Rightarrow> bool" where
  "py_contains sub [] = (sub = [])"
| "py_contains sub (c # cs) = (prefix sub (c # cs) \<or> py_contains sub cs)"

subsection \<open>\<open>hashlib.sha1(...).hexdigest()\<close> (FIPS 180-4)\<close>

definition sha1_length_bytes :: "nat \<Rightarrow> 32 word list" where
  "sha1_length_bytes n =
     map (\<lambda>i. word_of_int ((8 * int n) div 256 ^ (7 - i) mod 256)) [0..<8]"

definition sha1_pad :: "32 word list \<Rightarrow> 32 word list" where
  "sha1_pad m =
     m @ [0x80] @ replicate ((119 - length m mod 64) mod 64) 0 @ sha1_length_bytes (length m)"

fun chunks :: "nat \<Rightarrow> 'a list \<Rightarrow> 'a list list" where
  "chunks 0 xs = []"
| "chunks (Suc n) [] = []"
| "chunks (Suc n) (x # xs) = take (Suc n) (x # xs) # chunks (Suc n) (drop n xs)"

definition be_word :: "32 word list \<Rightarrow> 32 word" where
  "be_word bs = foldl (\<lambda>acc b. push_bit 8 acc OR b) 0 bs"

text \<open>The message schedule, held newest word first.\<close>

fun sha1_extend :: "nat \<Rightarrow> 32 word list \<Rightarrow> 32 word list" where
  "sha1_extend 0 rw = rw"
| "sha1_extend (Suc n) rw =
     sha1_extend n (word_rotl 1 (rw ! 2 XOR rw ! 7 XOR rw ! 13 XOR rw ! 15) # rw)"

definition sha1_f :: "nat \<Rightarrow> 32 word \<Rightarrow> 32 word \<Rightarrow> 32 word \<Rightarrow> 32 word" where
  "sha1_f t b c d =
     (if t < 20 then (b AND c) OR (NOT b AND d)
      else if t < 40 then b XOR c XOR d
      else if t < 60 then (b AND c) OR (b AND d) OR (c AND d)
      else b XOR c XOR d)"

definition sha1_k :: "nat \<Rightarrow> 32 word" where
  "sha1_k t =
     (if t < 20 then 0x5A827999 else if t < 40 then 0x6ED9EBA1
      else if t < 60 then 0x8F1BBCDC else 0xCA62C1D6)"

type_synonym sha1_state = "32 word \<times> 32 word \<times> 32 word \<times> 32 word \<times> 32 word"

fun sha1_round :: "sha1_state \<Rightarrow> nat \<times> 32 word \<Rightarrow> sha1_state" where
  "sha1_round (a, b, c, d, e) (t, w) =
     (word_rotl 5 a + sha1_f t b c d + e + sha1_k t + w, a, word_rotl 30 b, c, d)"

fun sha1_block :: "sha1_state \<Rightarrow> 32 word list \<Rightarrow> sha1_state" where
  "sha1_block (h0, h1, h2, h3, h4) block =
     (case foldl sha1_round (h0, h1, h2, h3, h4)
             (zip [0..<80] (rev (sha1_extend 64 (rev (map be_word (chunks 4 block)))))) of
        (a, b, c, d, e) \<Rightarrow> (h0 + a, h1 + b, h2 + c, h3 + d, h4 + e))"

definition sha1_init :: sha1_state where
  "sha1_init = (0x67452301, 0xEFCDAB89, 0x98BADCFE, 0x10325476, 0xC3D2E1F0)"

definition hex_digit :: "32 word \<Rightarrow> char" where
  "hex_digit n = ''0123456789abcdef'' ! unat (n AND 0xF)"

definition hex_word :: "32 word \<Rightarrow> string" where
  "hex_word w = map (\<lambda>i. hex_digit (drop_bit (4 * (7 - i)) w)) [0..<8]"

definition sha1_hexdigest :: "string \<Rightarrow> string" where
  "sha1_hexdigest s =
     (case foldl sha1_block sha1_init (chunks 64 (sha1_pad (map of_char s))) of
        (h0, h1, h2, h3, h4) \<Rightarrow> concat (map hex_word [h0, h1, h2, h3, h4]))"

subsection \<open>Types of the data model\<close>

datatype source_name = ETG | UR | SIEMENS | BECKHOFF | PI_PROFINET | ODVA_ENIP | ROS2

datatype segment = OEM | SI | Distributor | RnD | University | Other

datatype priority = HOT | WARM | COLD

datatype status_type =
  Queued | Running | Scanned | Enriching | Enriched | Scoring | Scored
  | Exporting | Exported | Failed

text \<open>\<open>RawCompany\<close>; its \<open>meta\<close> dictionary is never read and is left out.\<close>

record raw_company =
  rc_name :: string
  rc_country :: string
  rc_website :: "string option"
  rc_source :: source_name
  rc_source_url :: "string option"

record source_hit =
  hit_name :: source_name
  strength :: rat
  hit_source_url :: "string option"

record contact =
  c_name :: "string option"
  c_role :: "string option"
  c_email :: "string option"
  c_linkedin :: "string option"
  c_page_url :: "string option"

record company_context =
  size_hint :: "string option"
  sectors :: "string list"
  technologies :: "string list"
  partners :: "string list"
  recent_projects :: "string list"
  languages :: "string list"

record lead =
  company_id :: string
  company_name :: string
  country :: string
  website :: "string option"
  segment :: "segment option"
  stack_tags :: "string list"
  sources :: "source_hit list"
  score :: int
  priority_class :: "priority option"
  contact_email :: "string option"
  contact_url :: "string option"
  phone :: "string option"
  reason :: "string option"
  pitch :: "string option"
  last_seen :: rat
  contacts :: "contact list"
  lead_context :: "company_context option"

record job_status =
  job_id :: string
  status :: status_type
  progress :: "(source_name \<times> rat) list"
  found :: int
  errors :: int
  started_at :: "rat option"
  updated_at :: "rat option"
  message :: "string option"

type_synonym lead_store = "(string \<times> lead) list"

type_synonym job_registry = "string \<rightharpoonup> job_status"

text \<open>The response model \<open>JobAccepted\<close>.\<close>

type_synonym job_accepted = "string \<times> status_type"

subsection \<open>Company identity and the merge engine\<close>

text \<open>Truthiness of an \<open>Optional[str]\<close>: neither \<open>None\<close> nor empty.\<close>

definition truthy :: "string option \<Rightarrow> bool" where
  "truthy x \<longleftrightarrow> (case x of None \<Rightarrow> False | Some s \<Rightarrow> s \<noteq> [])"

definition or_empty :: "string option \<Rightarrow> string" where
  "or_empty x = (case x of None \<Rightarrow> [] | Some s \<Rightarrow> s)"

text \<open>The local \<open>host\<close> of \<open>company_id_from\<close> (lines 282-287).\<close>

definition company_host :: "pylib \<Rightarrow> string option \<Rightarrow> string \<Rightarrow> py_error + string" where
  "company_host Lib site name =
     (let base = str_lower Lib (str_strip Lib (or_empty site))
      in if base \<noteq> []
         then (case netloc_of Lib base of
                 Inl e \<Rightarrow> Inl e
               | Inr netloc \<Rightarrow>
                   Inr (strip_chars ''/''
                          (py_replace ''www.'' [] (if netloc \<noteq> [] then netloc else base))))
         else Inr (py_replace '' '' ''-'' (str_lower Lib (str_strip Lib name))))"

text \<open>The local \<open>raw\<close> (line 288): the string that is hashed.\<close>

definition company_raw ::
  "pylib \<Rightarrow> string option \<Rightarrow> string \<Rightarrow> string \<Rightarrow> py_error + string" where
  "company_raw Lib site name ctry =
     (case company_host Lib site name of
        Inl e \<Rightarrow> Inl e
      | Inr host \<Rightarrow>
          Inr (host @ ''|'' @ str_lower Lib (str_strip Lib name) @ ''|'' @ str_upper Lib ctry))"

definition company_id_from ::
  "pylib \<Rightarrow> string option \<Rightarrow> string \<Rightarrow> string \<Rightarrow> py_error + string" where
  "company_id_from Lib site name ctry =
     (case company_raw Lib site name ctry of
        Inl e \<Rightarrow> Inl e
      | Inr raw \<Rightarrow> Inr (take 16 (sha1_hexdigest raw)))"

definition rc_company_id :: "pylib \<Rightarrow> raw_company \<Rightarrow> py_error + string" where
  "rc_company_id Lib rc = company_id_from Lib (rc_website rc) (rc_name rc) (rc_country rc)"

text \<open>The source-implied defaults computed at the head of \<open>upsert_lead_from_raw\<close>.\<close>

definition default_segment :: "source_name \<Rightarrow> segment" where
  "default_segment src = (if src = SIEMENS \<or> src = UR then SI else OEM)"

definition base_stacks :: "source_name \<Rightarrow> string list" where
  "base_stacks src =
     (if src = ETG then [''EtherCAT''] else [])
     @ (if src = SIEMENS then [''PROFINET'', ''TIA''] else [])
     @ (if src = UR then [''UR''] else [])
     @ (if src = BECKHOFF then [''EtherCAT'', ''TwinCAT''] else [])
     @ (if src = PI_PROFINET then [''PROFINET''] else [])"

definition src_strength :: "source_name \<Rightarrow> rat" where
  "src_strength src =
     (if src \<in> {ETG, SIEMENS, BECKHOFF, PI_PROFINET} then 90 / 100 else 85 / 100)"

definition source_hit_of :: "raw_company \<Rightarrow> source_hit" where
  "source_hit_of rc =
     \<lparr>hit_name = rc_source rc, strength = src_strength (rc_source rc),
      hit_source_url = rc_source_url rc\<rparr>"

text \<open>\<open>if t not in xs: xs.append(t)\<close>, and the loop over the new elements.\<close>

definition append_if_absent :: "'a list \<Rightarrow> 'a \<Rightarrow> 'a list" where
  "append_if_absent xs t = (if t \<in> set xs then xs else xs @ [t])"

definition union_into :: "'a list \<Rightarrow> 'a list \<Rightarrow> 'a list" where
  "union_into xs ts = foldl append_if_absent xs ts"

text \<open>
  \<open>Lead(..., website=rc.get("website"), ...)\<close>: pydantic validates the website against
  the field type \<open>Optional[HttpUrl]\<close> and stores the validated value; \<open>None\<close> passes.
  (The other arguments are of their field types; an assignment to a field of an
  existing lead is not validated.)
\<close>

definition validate_website :: "pylib \<Rightarrow> string option \<Rightarrow> py_error + string option" where
  "validate_website Lib w =
     (case w of
        None \<Rightarrow> Inr None
      | Some x \<Rightarrow> (case HttpUrl Lib x of Inl e \<Rightarrow> Inl e | Inr u \<Rightarrow> Inr (Some u)))"

definition new_lead :: "rat \<Rightarrow> string \<Rightarrow> raw_company \<Rightarrow> string option \<Rightarrow> lead" where
  "new_lead now cid rc site =
     \<lparr>company_id = cid, company_name = rc_name rc, country = rc_country rc,
      website = site, segment = Some (default_segment (rc_source rc)),
      stack_tags = base_stacks (rc_source rc), sources = [source_hit_of rc],
      score = 0, priority_class = None, contact_email = None, contact_url = None,
      phone = None, reason = None, pitch = None, last_seen = now, contacts = [],
      lead_context = None\<rparr>"

definition merge_lead :: "lead \<Rightarrow> raw_company \<Rightarrow> lead" where
  "merge_lead lead rc =
     lead\<lparr>sources := sources lead @ [source_hit_of rc],
          website := (if website lead = None \<and> truthy (rc_website rc)
                      then rc_website rc else website lead),
          stack_tags := union_into (stack_tags lead) (base_stacks (rc_source rc)),
          segment := (if segment lead = None then Some (default_segment (rc_source rc))
                      else segment lead)\<rparr>"

definition upsert_lead_from_raw ::
  "pylib \<Rightarrow> rat \<Rightarrow> raw_company \<Rightarrow> lead_store \<Rightarrow> py_error + (lead_store \<times> lead)" where
  "upsert_lead_from_raw Lib now rc LEADS =
     (case rc_company_id Lib rc of
        Inl e \<Rightarrow> Inl e
      | Inr cid \<Rightarrow>
          (case map_of LEADS cid of
             None \<Rightarrow>
               (case validate_website Lib (rc_website rc) of
                  Inl e \<Rightarrow> Inl e
                | Inr site \<Rightarrow>
                    (let lead = new_lead now cid rc site
                     in Inr (AList.update cid lead LEADS, lead)))
           | Some lead \<Rightarrow>
               (let lead' = merge_lead lead rc
                in Inr (AList.update cid lead' LEADS, lead'))))"


subsection \<open>The scorer\<close>

definition WEIGHTS_signal :: rat where
  "WEIGHTS_signal = 40"

definition WEIGHTS_stacks :: "(string \<times> int) list" where
  "WEIGHTS_stacks =
     [(''EtherCAT'', 25), (''PROFINET'', 20), (''EtherNet/IP'', 18), (''ROS2'', 12),
      (''UR'', 10), (''TwinCAT'', 8), (''TIA'', 8), (''Studio5000'', 8)]"

definition stack_weight :: "string \<Rightarrow> int" where
  "stack_weight t = (case map_of WEIGHTS_stacks t of Some w \<Rightarrow> w | None \<Rightarrow> 0)"

definition stack_points :: "lead \<Rightarrow> int" where
  "stack_points lead = sum_list (map stack_weight (stack_tags lead))"

text \<open>\<open>max(xs, default=d)\<close> and \<open>int(x)\<close> (truncation towards zero).\<close>

definition max_default :: "rat \<Rightarrow> rat list \<Rightarrow> rat" where
  "max_default d xs = (case xs of [] \<Rightarrow> d | x # r \<Rightarrow> fold max r x)"

definition py_int :: "rat \<Rightarrow> int" where
  "py_int x = (if 0 \<le> x then \<lfloor>x\<rfloor> else \<lceil>x\<rceil>)"

definition max_strength :: "lead \<Rightarrow> rat" where
  "max_strength l = max_default 0 (map strength (sources l))"

definition raw_score :: "lead \<Rightarrow> int" where
  "raw_score l =
     (let sig = max_strength l;
          sig_pts = py_int (sig * WEIGHTS_signal);
          st_pts = stack_points l
      in max 0 (min 100 (sig_pts + st_pts)))"

definition priority_of :: "int \<Rightarrow> priority" where
  "priority_of raw = (if raw \<ge> 70 then HOT else if raw \<ge> 45 then WARM else COLD)"

definition has_source :: "source_name \<Rightarrow> lead \<Rightarrow> bool" where
  "has_source n l \<longleftrightarrow> list_ex (\<lambda>s. hit_name s = n) (sources l)"

definition reasons_of :: "lead \<Rightarrow> string list" where
  "reasons_of l =
     (if list_ex (\<lambda>t. t \<in> set (stack_tags l)) [''EtherCAT'', ''PROFINET'', ''EtherNet/IP'']
      then [''Fieldbus match''] else [])
     @ (if ''ROS2'' \<in> set (stack_tags l) then [''ROS2 present''] else [])
     @ (if ''TwinCAT'' \<in> set (stack_tags l) then [''TwinCAT''] else [])
     @ (if ''TIA'' \<in> set (stack_tags l) then [''TIA Portal''] else [])
     @ (if ''Studio5000'' \<in> set (stack_tags l) then [''Studio 5000''] else [])
     @ (if has_source ETG l then [''Listed on ETG''] else [])
     @ (if has_source SIEMENS l then [''Siemens partner''] else [])
     @ (if has_source UR l then [''UR ecosystem''] else [])
     @ (if has_source BECKHOFF l then [''Beckhoff ecosystem''] else [])
     @ (if has_source PI_PROFINET l then [''PI/PROFINET ecosystem''] else [])"

definition pitch_of :: "lead \<Rightarrow> string" where
  "pitch_of l =
     ''Abbiamo integrazioni MAC con EtherCAT/PROFINET/EtherNet-IP, ROS2, UR e PLC ''
     @ ''(TwinCAT/TIA/Studio5000). POC rapido sul vostro stack (''
     @ py_join '', '' (stack_tags l) @ '').''"

text \<open>The body of the loop of \<open>score\<close> (lines 1252-1270), on one lead.\<close>

definition score_lead :: "lead \<Rightarrow> lead" where
  "score_lead l =
     (let raw = raw_score l;
          reasons = reasons_of l
      in l\<lparr>score := raw,
           priority_class := Some (priority_of raw),
           reason := Some (if reasons \<noteq> [] then py_join ''; '' reasons
                           else ''Relevance match''),
           pitch := Some (pitch_of l)\<rparr>)"

subsection \<open>The rate-limited fetcher \<open>RobustHttp\<close>\<close>

text \<open>
  The network and the random generator are oracles: \<open>net n url\<close> is what the \<open>n\<close>-th
  call of \<open>requests.get\<close> of the process meets when it asks for \<open>url\<close>, \<open>rnd n\<close> the
  value \<open>random.random()\<close> draws after it. The state of the client records, besides the
  fields of the class, a clock that \<open>time.sleep\<close> advances and the log of the URLs
  requested so far.
\<close>

datatype http_outcome = Response int string | TransportError

record env =
  net :: "nat \<Rightarrow> string \<Rightarrow> http_outcome"
  rnd :: "nat \<Rightarrow> rat"

record rate_bucket =
  rps :: rat
  min_gap :: rat
  last :: rat

record http_state =
  respect_robots :: bool
  http_rps :: rat
  buckets :: "string \<rightharpoonup> rate_bucket"
  cache :: "string \<rightharpoonup> string"
  robots_cache :: "string \<rightharpoonup> string"
  clock :: rat
  requests :: "string list"

definition MAX_RETRIES :: nat where
  "MAX_RETRIES = 5"

definition BACKOFF_BASE :: rat where
  "BACKOFF_BASE = 17 / 10"

definition new_bucket :: "rat \<Rightarrow> rate_bucket" where
  "new_bucket r = \<lparr>rps = max (1 / 10) r, min_gap = 1 / max (1 / 10) r, last = 0\<rparr>"

text \<open>\<open>RateBucket.wait\<close> at time \<open>now\<close>: the time after the sleep, and the bucket.\<close>

definition bucket_wait :: "rat \<Rightarrow> rate_bucket \<Rightarrow> rat \<times> rate_bucket" where
  "bucket_wait now b =
     (let delta = now - last b;
          now' = (if delta < min_gap b then now + (min_gap b - delta) else now)
      in (now', b\<lparr>last := now'\<rparr>))"

definition the_bucket :: "http_state \<Rightarrow> string \<Rightarrow> rate_bucket" where
  "the_bucket st host = (case buckets st host of Some b \<Rightarrow> b | None \<Rightarrow> new_bucket (http_rps st))"

text \<open>
  The retry loop of \<open>get\<close> (lines 253-269): \<open>i\<close> is the loop index, the second number
  the iterations left.
\<close>

fun get_loop ::
  "env \<Rightarrow> string \<Rightarrow> string \<Rightarrow> bool \<Rightarrow> nat \<Rightarrow> nat \<Rightarrow> http_state \<Rightarrow> (py_error + string) \<times> http_state" where
  "get_loop E url host cache_ok i 0 st = (Inl (RuntimeError (''GET failed after retries: '' @ url)), st)"
| "get_loop E url host cache_ok i (Suc n) st =
     (let (now', b') = bucket_wait (clock st) (the_bucket st host);
          k = length (requests st);
          st1 = st\<lparr>buckets := (buckets st)(host \<mapsto> b'), clock := now',
                   requests := requests st @ [url]\<rparr>
      in case net E k url of
           Response code text \<Rightarrow>
             if 200 \<le> code \<and> code < 300
             then (Inr text, if cache_ok then st1\<lparr>cache := (cache st1)(url \<mapsto> text)\<rparr> else st1)
             else if code \<in> {403, 429, 503}
             then get_loop E url host cache_ok (Suc i) n
                    (st1\<lparr>clock := clock st1 + BACKOFF_BASE ^ i + rnd E k\<rparr>)
             else (Inl (RuntimeError (''GET failed after retries: '' @ url)), st1)
         | TransportError \<Rightarrow>
             get_loop E url host cache_ok (Suc i) n
               (st1\<lparr>clock := clock st1 + BACKOFF_BASE ^ i + rnd E k * (1 / 2)\<rparr>))"

text \<open>
  \<open>get\<close> and \<open>robots_allowed\<close> call each other, and nothing in the source bounds the
  nesting: fetching \<open>robots.txt\<close> asks whether \<open>robots.txt\<close> may be fetched. Python ends
  such a chain with \<open>RecursionError\<close>, an \<open>Exception\<close> like any other; the first argument
  after the oracles is the number of frames still available.
\<close>

fun get ::
  "pylib \<Rightarrow> env \<Rightarrow> nat \<Rightarrow> string \<Rightarrow> bool \<Rightarrow> http_state \<Rightarrow> (py_error + string) \<times> http_state"
  and robots_allowed ::
  "pylib \<Rightarrow> env \<Rightarrow> nat \<Rightarrow> string \<Rightarrow> http_state \<Rightarrow> (py_error + bool) \<times> http_state" where
  "get Lib E 0 url cache_ok st = (Inl RecursionError, st)"
| "get Lib E (Suc d) url cache_ok st =
     (case (if cache_ok then cache st url else None) of
        Some body \<Rightarrow> (Inr body, st)
      | None \<Rightarrow>
          (case netloc_of Lib url of
             Inl e \<Rightarrow> (Inl e, st)
           | Inr host \<Rightarrow>
               (case robots_allowed Lib E d url st of
                  (Inl e, st') \<Rightarrow> (Inl e, st')
                | (Inr allowed, st') \<Rightarrow>
                    if \<not> allowed
                    then (Inl (RuntimeError (''robots disallow for '' @ host)), st')
                    else get_loop E url host cache_ok 0 MAX_RETRIES st')))"
| "robots_allowed Lib E 0 url st = (Inl RecursionError, st)"
| "robots_allowed Lib E (Suc d) url st =
     (if \<not> respect_robots st then (Inr True, st)
      else
        (case urlparse Lib url of
           Inl e \<Rightarrow> (Inl e, st)
         | Inr (scheme, netloc) \<Rightarrow>
             (case urljoin Lib (scheme @ ''://'' @ netloc) ''/robots.txt'' of
                Inl e \<Rightarrow> (Inl e, st)
              | Inr robots_url \<Rightarrow>
                  (case robots_cache st robots_url of
                     Some policy \<Rightarrow> (Inr (\<not> py_contains ''Disallow: /'' policy), st)
                   | None \<Rightarrow>
                       (case get Lib E d robots_url True st of
                          (Inr policy, st') \<Rightarrow>
                            (Inr (\<not> py_contains ''Disallow: /'' policy),
                             st'\<lparr>robots_cache := (robots_cache st')(robots_url \<mapsto> policy)\<rparr>)
                        | (Inl e, st') \<Rightarrow> (Inr True, st'))))))"

text \<open>
  The robots policy in the words of the specification: a blanket disallow is a line of
  the policy that reads \<open>Disallow: /\<close>.
\<close>

fun split_lines :: "string \<Rightarrow> string list" where
  "split_lines [] = [[]]"
| "split_lines (c # cs) =
     (if c = CHR 0x0A then [] # split_lines cs
      else (case split_lines cs of l # ls \<Rightarrow> (c # l) # ls | [] \<Rightarrow> [[c]]))"

definition blanket_disallow :: "pylib \<Rightarrow> string \<Rightarrow> bool" where
  "blanket_disallow Lib policy \<longleftrightarrow>
     ''Disallow: /'' \<in> set (map (str_strip Lib) (split_lines policy))"

text \<open>A client that has met \<open>example.com\<close> before, whose policy disallows one path.\<close>

definition robots_private :: string where
  "robots_private = ''User-agent: *'' @ [CHR 0x0A] @ ''Disallow: /private''"

definition quiet_env :: env where
  "quiet_env = \<lparr>net = (\<lambda>n url. TransportError), rnd = (\<lambda>n. 0)\<rparr>"

definition http_example :: http_state where
  "http_example =
     \<lparr>respect_robots = True, http_rps = 1 / 2, buckets = Map.empty,
      cache = [''http://example.com/about'' \<mapsto> ''<html>about</html>''],
      robots_cache = [''http://example.com/robots.txt'' \<mapsto> robots_private],
      clock = 100, requests = []\<rparr>"

subsection \<open>The state of the process, and the endpoint \<open>score\<close>\<close>

record state =
  LEADS :: lead_store
  JOBS :: job_registry
  HTTP :: http_state

definition set_job_status :: "rat \<Rightarrow> string \<Rightarrow> status_type \<Rightarrow> job_registry \<Rightarrow> job_registry" where
  "set_job_status now jid st jobs =
     (case jobs jid of
        None \<Rightarrow> jobs
      | Some job \<Rightarrow> jobs(jid \<mapsto> job\<lparr>status := st, updated_at := Some now\<rparr>))"

text \<open>The endpoint \<open>score(req)\<close>; \<open>jid\<close> is \<open>req.job_id\<close>. Nothing in it can raise.\<close>

definition score_op :: "rat \<Rightarrow> string \<Rightarrow> state \<Rightarrow> job_accepted \<times> state" where
  "score_op now jid s =
     ((jid, Scored),
      s\<lparr>LEADS := map (\<lambda>(cid, l). (cid, score_lead l)) (LEADS s),
        JOBS := set_job_status now jid Scored (JOBS s)\<rparr>)"

subsection \<open>The scorer in the words of the specification\<close>





text \<open>
  Every \<open>SourceHit\<close> of the program is built by \<open>upsert_lead_from_raw\<close>, with the strength
  constant of its source; nothing else writes \<open>sources\<close>.
\<close>

definition upsert_strengths :: "lead \<Rightarrow> bool" where
  "upsert_strengths l \<longleftrightarrow> list_all (\<lambda>h. strength h = src_strength (hit_name h)) (sources l)"


subsection \<open>The candidates of the specification's scenario\<close>

definition acme_etg :: raw_company where
  "acme_etg = \<lparr>rc_name = ''Acme'', rc_country = ''DK'', rc_website = None,
     rc_source = ETG, rc_source_url = None\<rparr>"

definition acme_siemens :: raw_company where
  "acme_siemens = \<lparr>rc_name = ''Acme'', rc_country = ''DK'', rc_website = None,
     rc_source = SIEMENS, rc_source_url = None\<rparr>"

definition acme_id :: string where
  "acme_id = take 16 (sha1_hexdigest ''acme|acme|DK'')"





text \<open>The websites of a candidate that pydantic accepts.\<close>

definition website_ok :: "pylib \<Rightarrow> raw_company \<Rightarrow> bool" where
  "website_ok Lib rc =
     (case validate_website Lib (rc_website rc) of Inl e \<Rightarrow> False | Inr site \<Rightarrow> True)"

text \<open>The rows that an upsert accepts.\<close>

definition row_ok :: "pylib \<Rightarrow> raw_company \<Rightarrow> bool" where
  "row_ok Lib rc =
     ((case rc_company_id Lib rc of Inl e \<Rightarrow> False | Inr cid \<Rightarrow> True) \<and> website_ok Lib rc)"



subsection \<open>Logical equivalence of candidates in the words of the specification\<close>

text \<open>
  The specification's key of a candidate: the host of the website after lowercasing,
  with a \<open>www.\<close> prefix and trailing slashes stripped, or, when the website is absent, the
  key derived from the name.
\<close>

datatype host_key = WebsiteHost string | NameKey string

definition drop_www_prefix :: "string \<Rightarrow> string" where
  "drop_www_prefix h = (if prefix ''www.'' h then drop (length ''www.'') h else h)"

definition spec_host_key :: "pylib \<Rightarrow> string option \<Rightarrow> string \<Rightarrow> py_error + host_key" where
  "spec_host_key Lib site name =
     (let base = str_lower Lib (str_strip Lib (or_empty site))
      in if base \<noteq> []
         then (case netloc_of Lib base of
                 Inl e \<Rightarrow> Inl e
               | Inr netloc \<Rightarrow>
                   Inr (WebsiteHost
                          (rstrip_chars ''/''
                             (drop_www_prefix (if netloc \<noteq> [] then netloc else base)))))
         else Inr (NameKey (py_replace '' '' ''-'' (str_lower Lib (str_strip Lib name)))))"

definition logically_equivalent ::
  "pylib \<Rightarrow> string option \<times> string \<times> string \<Rightarrow> string option \<times> string \<times> string \<Rightarrow> bool" where
  "logically_equivalent Lib a b =
     (case (a, b) of
        ((site1, name1, ctry1), (site2, name2, ctry2)) \<Rightarrow>
          spec_host_key Lib site1 name1 = spec_host_key Lib site2 name2
          \<and> str_lower Lib (str_strip Lib name1) = str_lower Lib (str_strip Lib name2)
          \<and> str_upper Lib ctry1 = str_upper Lib ctry2)"

subsection \<open>Pages as the enrichment walker sees them\<close>

text \<open>
  What BeautifulSoup and the regular expressions find in a page is given by oracles
  on the HTML text, taken to return: the text of the page, the links and headings that
  the selectors find, the matches of the regular expressions. \<open>candidate_links\<close> and
  \<open>extract_contacts_from_soup\<close> (before its final \<open>[:30]\<close>) are such oracles as well.
\<close>

datatype regex_key =
  R_ethercat | R_profinet | R_ethernetip | R_ros2 | R_twincat | R_tia | R_studio5000
  | R_fieldbus_generic | R_motion_plc

text \<open>A JSON-LD organisation: \<open>str(size)\<close> of its first employee count, and \<open>sameAs\<close>.\<close>

record org =
  org_size :: "string option"
  org_same_as :: "string list"

record web =
  soup_text :: "string \<Rightarrow> string"
  contact_link :: "string \<Rightarrow> string option"
  first_email :: "string \<Rightarrow> string option"
  first_abs_link :: "string \<Rightarrow> string option"
  regex_search :: "regex_key \<Rightarrow> string \<Rightarrow> bool"
  candidate_links :: "string \<Rightarrow> string \<Rightarrow> (rat \<times> string) list"
  jsonld_orgs :: "string \<Rightarrow> org list"
  html_lang :: "string \<Rightarrow> string option"
  word_search :: "string \<Rightarrow> string \<Rightarrow> bool"
  partner_search :: "string \<Rightarrow> string \<Rightarrow> bool"
  headline_texts :: "string \<Rightarrow> string list"
  h123_texts :: "string \<Rightarrow> string list"
  extract_contacts_from_soup :: "string \<Rightarrow> string \<Rightarrow> contact list"
  phone_match :: "string \<Rightarrow> string option"

definition detect_stacks_extended :: "web \<Rightarrow> string \<Rightarrow> string list" where
  "detect_stacks_extended W body =
     (let tags =
            (if regex_search W R_ethercat body then [''EtherCAT''] else [])
            @ (if regex_search W R_profinet body then [''PROFINET''] else [])
            @ (if regex_search W R_ethernetip body then [''EtherNet/IP''] else [])
            @ (if regex_search W R_ros2 body then [''ROS2''] else [])
            @ (if regex_search W R_twincat body then [''TwinCAT''] else [])
            @ (if regex_search W R_tia body then [''TIA''] else [])
            @ (if regex_search W R_studio5000 body then [''Studio5000''] else []);
          tags1 = (if regex_search W R_fieldbus_generic body
                   then union_into tags [''PROFINET'', ''EtherNet/IP''] else tags)
      in if regex_search W R_motion_plc body
         then union_into tags1 [''TwinCAT'', ''TIA'', ''Studio5000''] else tags1)"

subsection \<open>The endpoint \<open>enrich\<close>\<close>

text \<open>The local \<open>fetch\<close>: any exception of \<open>HTTP.get\<close> gives the empty page.\<close>

definition fetch :: "pylib \<Rightarrow> env \<Rightarrow> nat \<Rightarrow> http_state \<Rightarrow> string \<Rightarrow> string \<times> http_state" where
  "fetch Lib E d h url =
     (case get Lib E d url True h of (Inr body, h') \<Rightarrow> (body, h') | (Inl e, h') \<Rightarrow> ([], h'))"

text \<open>\<open>str(x)\<close> of an optional URL.\<close>

definition str_opt :: "string option \<Rightarrow> string" where
  "str_opt x = (case x of None \<Rightarrow> ''None'' | Some s \<Rightarrow> s)"

text \<open>Lines 1063-1067: the first source URL that gives a page.\<close>

fun fetch_first ::
  "pylib \<Rightarrow> env \<Rightarrow> nat \<Rightarrow> http_state \<Rightarrow> source_hit list \<Rightarrow> string \<times> http_state" where
  "fetch_first Lib E d h [] = ([], h)"
| "fetch_first Lib E d h (src # rest) =
     (if truthy (hit_source_url src)
      then (case fetch Lib E d h (or_empty (hit_source_url src)) of
              (html, h') \<Rightarrow> if html \<noteq> [] then (html, h') else fetch_first Lib E d h' rest)
      else fetch_first Lib E d h rest)"

text \<open>
  Lines 1075-1093: follow one contact link. \<open>urljoin(base, a)\<close> stands outside every
  \<open>try\<close>: when it raises, the exception leaves \<open>enrich\<close>, the lead as it was.
\<close>

definition follow_contact ::
  "pylib \<Rightarrow> web \<Rightarrow> env \<Rightarrow> nat \<Rightarrow> string \<Rightarrow> lead \<Rightarrow> http_state
     \<Rightarrow> (py_error + lead) \<times> http_state" where
  "follow_contact Lib W E d html l h =
     (if truthy (contact_url l) then (Inr l, h)
      else if \<not> truthy (contact_link W html) then (Inr l, h)
      else
        (let a = or_empty (contact_link W html);
             base = (case sources l of
                       [] \<Rightarrow> str_opt (website l)
                     | s0 # rest \<Rightarrow>
                         if truthy (hit_source_url s0) then or_empty (hit_source_url s0)
                         else str_opt (website l))
         in case urljoin Lib base a of
              Inl e \<Rightarrow> (Inl e, h)
            | Inr cu \<Rightarrow>
                (let l1 = l\<lparr>contact_url := Some cu\<rparr>
                 in case fetch Lib E d h cu of
                      (contact_html, h') \<Rightarrow>
                        if contact_html \<noteq> [] \<and> \<not> truthy (contact_email l1)
                        then (case first_email W contact_html of
                                Some m \<Rightarrow> (Inr (l1\<lparr>contact_email := Some m\<rparr>), h')
                              | None \<Rightarrow> (Inr l1, h'))
                        else (Inr l1, h'))))"

definition vendor_hosts :: "string list" where
  "vendor_hosts =
     [''ethercat.org'', ''universal-robots.com'', ''siemens.com'',
      ''partnerfinder.siemens.com'', ''beckhoff.com'', ''profibus.com'']"

text \<open>Lines 1100-1106 and 1109-1115.\<close>

definition discover_website :: "web \<Rightarrow> string \<Rightarrow> lead \<Rightarrow> lead" where
  "discover_website W html l =
     (if truthy (website l) then l
      else if truthy (first_abs_link W html)
              \<and> list_all (\<lambda>k. \<not> py_contains k (or_empty (first_abs_link W html))) vendor_hosts
      then l\<lparr>website := first_abs_link W html\<rparr>
      else l)"

definition fallback_email :: "web \<Rightarrow> string \<Rightarrow> lead \<Rightarrow> lead" where
  "fallback_email W html l =
     (if truthy (contact_email l) then l
      else (case first_email W html of Some m \<Rightarrow> l\<lparr>contact_email := Some m\<rparr> | None \<Rightarrow> l))"

text \<open>The body of the loop of \<open>enrich\<close> for one lead: the lead it leaves, or the exception.\<close>

definition enrich_lead ::
  "pylib \<Rightarrow> web \<Rightarrow> env \<Rightarrow> nat \<Rightarrow> rat \<Rightarrow> lead \<Rightarrow> http_state \<Rightarrow> (py_error + lead) \<times> http_state" where
  "enrich_lead Lib W E d now l h =
     (case fetch_first Lib E d h (sources l) of
        (html1, h1) \<Rightarrow>
          (case (if html1 = [] \<and> truthy (website l) then fetch Lib E d h1 (str_opt (website l))
                 else (html1, h1)) of
             (html, h2) \<Rightarrow>
               if html = [] then (Inr l, h2)
               else
                 (case follow_contact Lib W E d html l h2 of
                    (Inl e, h3) \<Rightarrow> (Inl e, h3)
                  | (Inr l1, h3) \<Rightarrow>
                      (let l2 = l1\<lparr>stack_tags :=
                                      union_into (stack_tags l1)
                                        (detect_stacks_extended W (soup_text W html))\<rparr>;
                           l3 = discover_website W html l2;
                           l4 = fallback_email W html l3
                       in (Inr (l4\<lparr>last_seen := now\<rparr>), h3)))))"

text \<open>
  The loop over \<open>LEADS.values()\<close>. An exception ends it: the leads before are enriched,
  the others are as they were.
\<close>

fun enrich_all ::
  "pylib \<Rightarrow> web \<Rightarrow> env \<Rightarrow> nat \<Rightarrow> rat \<Rightarrow> lead_store \<Rightarrow> http_state
     \<Rightarrow> py_error option \<times> lead_store \<times> http_state" where
  "enrich_all Lib W E d now [] h = (None, [], h)"
| "enrich_all Lib W E d now ((cid, l) # rest) h =
     (case enrich_lead Lib W E d now l h of
        (Inl e, h1) \<Rightarrow> (Some e, (cid, l) # rest, h1)
      | (Inr l', h1) \<Rightarrow>
          (case enrich_all Lib W E d now rest h1 of
             (r, rest', h2) \<Rightarrow> (r, (cid, l') # rest', h2)))"

text \<open>The endpoint \<open>enrich(req)\<close>; \<open>jid\<close> is \<open>req.job_id\<close>, \<open>d\<close> the frames available.\<close>

definition enrich ::
  "pylib \<Rightarrow> web \<Rightarrow> env \<Rightarrow> nat \<Rightarrow> rat \<Rightarrow> string \<Rightarrow> state \<Rightarrow> (py_error + job_accepted) \<times> state" where
  "enrich Lib W E d now jid s =
     (case enrich_all Lib W E d now (LEADS s) (HTTP s) of
        (Some e, leads', h') \<Rightarrow> (Inl e, s\<lparr>LEADS := leads', HTTP := h'\<rparr>)
      | (None, leads', h') \<Rightarrow>
          (Inr (jid, Enriched),
           s\<lparr>LEADS := leads', HTTP := h',
             JOBS := set_job_status now jid Enriched (JOBS s)\<rparr>))"

definition quiet_web :: web where
  "quiet_web =
     \<lparr>soup_text = (\<lambda>html. html), contact_link = (\<lambda>html. None),
      first_email = (\<lambda>html. None), first_abs_link = (\<lambda>html. None),
      regex_search = (\<lambda>k body. False),
      candidate_links = (\<lambda>base html. []), jsonld_orgs = (\<lambda>html. []),
      html_lang = (\<lambda>html. None), word_search = (\<lambda>k body. False),
      partner_search = (\<lambda>v body. False), headline_texts = (\<lambda>html. []),
      h123_texts = (\<lambda>html. []), extract_contacts_from_soup = (\<lambda>base html. []),
      phone_match = (\<lambda>body. None)\<rparr>"


text \<open>
  A store with one lead whose source page is in the cache of the client, and two readings
  of that page: one finds an EtherCAT mention and a link \<open>/contact\<close>, the other a link
  whose \<open>href\<close> is \<open>http://[contact\<close>.
\<close>

definition about_lead :: lead where
  "about_lead =
     new_lead 0 acme_id
       (acme_etg\<lparr>rc_source_url := Some ''http://example.com/about''\<rparr>) None"

definition about_state :: state where
  "about_state = \<lparr>LEADS = [(acme_id, about_lead)], JOBS = Map.empty, HTTP = http_example\<rparr>"

definition contact_web :: web where
  "contact_web =
     quiet_web\<lparr>contact_link := (\<lambda>html. Some ''/contact''),
               regex_search := (\<lambda>k body. k = R_twincat)\<rparr>"


subsection \<open>The endpoint \<open>start_scan\<close>\<close>

definition EU_COUNTRIES :: "string list" where
  "EU_COUNTRIES =
     [''AT'', ''BE'', ''BG'', ''HR'', ''CY'', ''CZ'', ''DK'', ''EE'', ''FI'', ''FR'', ''DE'',
      ''GR'', ''HU'', ''IE'', ''IT'', ''LV'', ''LT'', ''LU'', ''MT'', ''NL'', ''PL'', ''PT'',
      ''RO'', ''SK'', ''SI'', ''ES'', ''SE'']"

definition REGION_EXPANSIONS :: "(string \<times> string list) list" where
  "REGION_EXPANSIONS =
     [(''EU'', EU_COUNTRIES),
      (''EU_EEA_PLUS'', EU_COUNTRIES @ [''NO'', ''IS'', ''LI''] @ [''UK'', ''GB'', ''CH'']),
      (''EEA'', EU_COUNTRIES @ [''NO'', ''IS'', ''LI'']),
      (''DACH'', [''DE'', ''AT'', ''CH'']),
      (''NORDICS'', [''DK'', ''SE'', ''NO'', ''FI'', ''IS'']),
      (''BENELUX'', [''BE'', ''NL'', ''LU'']),
      (''IBERIA'', [''ES'', ''PT'']),
      (''CEE'', [''PL'', ''CZ'', ''SK'', ''HU'', ''RO'', ''BG'', ''SI'', ''HR'', ''LT'', ''LV'', ''EE''])]"

text \<open>The registry \<open>ADAPTERS\<close>, by name; every source name has an adapter.\<close>

definition ADAPTERS :: "(string \<times> source_name) list" where
  "ADAPTERS =
     [(''ETG'', ETG), (''UR'', UR), (''SIEMENS'', SIEMENS), (''BECKHOFF'', BECKHOFF),
      (''PI_PROFINET'', PI_PROFINET), (''ODVA_ENIP'', ODVA_ENIP), (''ROS2'', ROS2)]"

text \<open>\<open>MAX_WORKERS\<close>: the default of the environment variable.\<close>

definition MAX_WORKERS :: int where
  "MAX_WORKERS = 12"

record scan_request =
  req_countries :: "string list"
  req_sources :: "string list"
  max_per_source :: int
  since_months :: int

text \<open>
  The adapters work on the network and run in a thread pool. \<open>adapter_scan src c i\<close> is
  what the \<open>i\<close>-th call of the adapter of \<open>src\<close> for country \<open>c\<close> does for this
  request: raise, or return rows. \<open>as_completed\<close> is the order in which the pool hands
  the finished tasks back.
\<close>

record scan_env =
  adapter_scan :: "source_name \<Rightarrow> string \<Rightarrow> nat \<Rightarrow> py_error + raw_company list"
  as_completed :: "(source_name \<times> string) list \<Rightarrow> (source_name \<times> string) list"

definition err_str :: "py_error \<Rightarrow> string" where
  "err_str e =
     (case e of ValueError m \<Rightarrow> m | RuntimeError m \<Rightarrow> m | ValidationError m \<Rightarrow> m
      | RecursionError \<Rightarrow> ''maximum recursion depth exceeded'')"

definition expand_countries :: "pylib \<Rightarrow> string list \<Rightarrow> string list" where
  "expand_countries Lib cs =
     sort (remdups (concat (map (\<lambda>c. let cu = str_upper Lib (str_strip Lib c)
                                       in (case map_of REGION_EXPANSIONS cu of
                                             Some region \<Rightarrow> region | None \<Rightarrow> [cu])) cs)))"

definition expand_sources :: "pylib \<Rightarrow> string list \<Rightarrow> source_name list" where
  "expand_sources Lib ss =
     (if list_ex (\<lambda>s. str_upper Lib s = ''ALL'') ss then map snd ADAPTERS
      else concat (map (\<lambda>s. case map_of ADAPTERS s of Some n \<Rightarrow> [n] | None \<Rightarrow> []) ss))"

text \<open>
  \<open>scan_task\<close> (lines 1019-1029): the rows and the error of one task; \<open>i\<close> is the loop
  index, the next number the attempts left.
\<close>

fun scan_task_loop ::
  "scan_env \<Rightarrow> source_name \<Rightarrow> string \<Rightarrow> nat \<Rightarrow> nat \<Rightarrow> string option
     \<Rightarrow> raw_company list \<times> string option" where
  "scan_task_loop S src c i 0 last_err =
     ([], Some (if truthy last_err then or_empty last_err else ''error''))"
| "scan_task_loop S src c i (Suc n) last_err =
     (case adapter_scan S src c i of
        Inr rows \<Rightarrow> (rows, None)
      | Inl e \<Rightarrow> scan_task_loop S src c (Suc i) n (Some (err_str e)))"

definition scan_task :: "scan_env \<Rightarrow> source_name \<times> string \<Rightarrow> raw_company list \<times> string option" where
  "scan_task S task = scan_task_loop S (fst task) (snd task) 0 MAX_RETRIES None"

text \<open>Lines 1046-1048: the rows of one task; a raise of the upsert ends the loop.\<close>

fun upsert_rows ::
  "pylib \<Rightarrow> rat \<Rightarrow> raw_company list \<Rightarrow> lead_store \<Rightarrow> int
     \<Rightarrow> py_error option \<times> lead_store \<times> int" where
  "upsert_rows Lib now [] L n = (None, L, n)"
| "upsert_rows Lib now (rc # rcs) L n =
     (case upsert_lead_from_raw Lib now rc L of
        Inl e \<Rightarrow> (Some e, L, n)
      | Inr (L', lead) \<Rightarrow> upsert_rows Lib now rcs L' (n + 1))"

record scan_acc =
  acc_leads :: lead_store
  acc_found :: int
  acc_errors :: int
  acc_done :: "(source_name \<times> nat) list"
  acc_progress :: "(source_name \<times> rat) list"

definition done_of :: "scan_acc \<Rightarrow> source_name \<Rightarrow> nat" where
  "done_of acc src = (case map_of (acc_done acc) src of Some n \<Rightarrow> n | None \<Rightarrow> 0)"

text \<open>The body of the loop over the completed tasks (lines 1043-1050).\<close>

definition consume_task ::
  "pylib \<Rightarrow> scan_env \<Rightarrow> rat \<Rightarrow> nat \<Rightarrow> source_name \<times> string \<Rightarrow> scan_acc
     \<Rightarrow> py_error option \<times> scan_acc" where
  "consume_task Lib S now per_source task acc =
     (case scan_task S task of
        (rows, err) \<Rightarrow>
          (case (if truthy err then (None, acc_leads acc, acc_found acc)
                 else upsert_rows Lib now rows (acc_leads acc) (acc_found acc)) of
             (raised, L, n) \<Rightarrow>
               (let acc1 = acc\<lparr>acc_leads := L, acc_found := n,
                                acc_errors := (if truthy err then acc_errors acc + 1
                                               else acc_errors acc)\<rparr>
                in case raised of
                     Some e \<Rightarrow> (Some e, acc1)
                   | None \<Rightarrow>
                       (let k = Suc (done_of acc1 (fst task))
                        in (None,
                            acc1\<lparr>acc_done := AList.update (fst task) k (acc_done acc1),
                                 acc_progress :=
                                   AList.update (fst task)
                                     (min 1 (of_nat k / of_nat per_source)) (acc_progress acc1)\<rparr>)))))"

fun consume_all ::
  "pylib \<Rightarrow> scan_env \<Rightarrow> rat \<Rightarrow> nat \<Rightarrow> (source_name \<times> string) list \<Rightarrow> scan_acc
     \<Rightarrow> py_error option \<times> scan_acc" where
  "consume_all Lib S now per_source [] acc = (None, acc)"
| "consume_all Lib S now per_source (task # tasks) acc =
     (case consume_task Lib S now per_source task acc of
        (Some e, acc') \<Rightarrow> (Some e, acc')
      | (None, acc') \<Rightarrow> consume_all Lib S now per_source tasks acc')"

definition new_job :: "string \<Rightarrow> rat \<Rightarrow> job_status" where
  "new_job jid t0 =
     \<lparr>job_id = jid, status = Running, progress = [], found = 0, errors = 0,
      started_at = Some t0, updated_at = None, message = None\<rparr>"

text \<open>
  \<open>start_scan(req)\<close>. \<open>jid\<close> is the fresh job id, \<open>t0\<close> the time of the start, \<open>t1\<close> the
  later clock readings. \<open>ThreadPoolExecutor(max_workers)\<close> raises \<open>ValueError\<close> unless
  \<open>max_workers\<close> is positive; a raise leaves the job as it was registered.
\<close>

definition start_scan ::
  "pylib \<Rightarrow> scan_env \<Rightarrow> string \<Rightarrow> rat \<Rightarrow> rat \<Rightarrow> scan_request \<Rightarrow> state
     \<Rightarrow> (py_error + job_accepted) \<times> state" where
  "start_scan Lib S jid t0 t1 req s =
     (let job = new_job jid t0;
          s1 = s\<lparr>JOBS := (JOBS s)(jid \<mapsto> job)\<rparr>;
          countries = expand_countries Lib (req_countries req);
          srcs = expand_sources Lib (req_sources req);
          max_workers = min MAX_WORKERS (int (length srcs) * max 1 (int (length countries)))
      in if max_workers \<le> 0
         then (Inl (ValueError ''max_workers must be greater than 0''), s1)
         else
           (let tasks = concat (map (\<lambda>src. map (\<lambda>c. (src, c)) countries) srcs);
                acc0 = \<lparr>acc_leads = LEADS s1, acc_found = 0, acc_errors = 0,
                        acc_done = foldl (\<lambda>al src. AList.update src 0 al) [] srcs,
                        acc_progress = foldl (\<lambda>al src. AList.update src 0 al) [] srcs\<rparr>
            in case consume_all Lib S t1 (length countries) (as_completed S tasks) acc0 of
                 (Some e, acc) \<Rightarrow> (Inl e, s1\<lparr>LEADS := acc_leads acc\<rparr>)
               | (None, acc) \<Rightarrow>
                   (Inr (jid, Scanned),
                    s1\<lparr>LEADS := acc_leads acc,
                       JOBS := (JOBS s1)(jid \<mapsto>
                         job\<lparr>status := Scanned, found := acc_found acc,
                             errors := acc_errors acc, progress := acc_progress acc,
                             updated_at := Some t1\<rparr>)\<rparr>)))"

text \<open>Two requests and an adapter outcome for the scan.\<close>

definition req_no_sources :: scan_request where
  "req_no_sources =
     \<lparr>req_countries = [''DK''], req_sources = [], max_per_source = 2000, since_months = 18\<rparr>"

definition req_etg_dk :: scan_request where
  "req_etg_dk =
     \<lparr>req_countries = [''DK''], req_sources = [''ETG''], max_per_source = 2000,
      since_months = 18\<rparr>"

definition bad_site_row :: raw_company where
  "bad_site_row =
     \<lparr>rc_name = ''Foo'', rc_country = ''DK'', rc_website = Some ''http://['',
      rc_source = ETG, rc_source_url = Some ''https://www.ethercat.org/''\<rparr>"

definition bad_site_env :: scan_env where
  "bad_site_env = \<lparr>adapter_scan = (\<lambda>src c i. Inr [bad_site_row]), as_completed = (\<lambda>ts. ts)\<rparr>"

definition failing_env :: scan_env where
  "failing_env =
     \<lparr>adapter_scan = (\<lambda>src c i. Inl (RuntimeError ''adapter down'')), as_completed = (\<lambda>ts. ts)\<rparr>"

subsection \<open>The endpoint \<open>enrich_deep\<close>\<close>

definition LANG_HINTS :: "(string \<times> string) list" where
  "LANG_HINTS =
     [(''de'', ''DE''), (''en'', ''EN''), (''it'', ''IT''), (''fr'', ''FR''), (''es'', ''ES''),
      (''pt'', ''PT''), (''da'', ''DA''), (''no'', ''NO''), (''sv'', ''SV''), (''fi'', ''FI''),
      (''nl'', ''NL''), (''pl'', ''PL''), (''cs'', ''CS''), (''hu'', ''HU''), (''ro'', ''RO''),
      (''bg'', ''BG''), (''el'', ''EL''), (''lt'', ''LT''), (''lv'', ''LV''), (''et'', ''ET'')]"

definition VENDOR_PARTNERS :: "string list" where
  "VENDOR_PARTNERS =
     [''Siemens'', ''Beckhoff'', ''ABB'', ''FANUC'', ''KUKA'', ''Yaskawa'', ''Mitsubishi'',
      ''Schneider'', ''Rexroth'', ''B&R'', ''Omron'', ''Rockwell'', ''Universal Robots'',
      ''UR'', ''ODVA'', ''PI'', ''EtherCAT'']"

definition sector_words :: "string list" where
  "sector_words =
     [''automotive'', ''pharma'', ''food'', ''packaging'', ''logistics'', ''semiconductor'',
      ''machine'', ''energy'', ''agri'', ''metal'', ''aerospace'']"

definition project_words :: "string list" where
  "project_words = [''case'', ''project'', ''application'', ''success'', ''reference'']"

text \<open>\<open>detect_languages\<close> (lines 404-414); the set \<open>langs\<close> is a list without repetition.\<close>

definition detect_languages :: "pylib \<Rightarrow> web \<Rightarrow> string \<Rightarrow> string list" where
  "detect_languages Lib W html =
     (let langs0 =
            (if truthy (html_lang W html)
             then (case map_of LANG_HINTS
                          (str_lower Lib (takeWhile (\<lambda>c. c \<noteq> CHR ''-'') (or_empty (html_lang W html)))) of
                     Some code \<Rightarrow> [code]
                   | None \<Rightarrow> [])
             else []);
          body = str_lower Lib (soup_text W html)
      in sort (foldl (\<lambda>langs (k, code).
                        if word_search W k body \<and> length langs < 6
                        then append_if_absent langs code else langs)
                 langs0 LANG_HINTS))"

text \<open>\<open>detect_partners_and_sectors\<close> (lines 416-428).\<close>

definition detect_partners :: "web \<Rightarrow> string \<Rightarrow> string list" where
  "detect_partners W html =
     take 20 (sort (remdups (filter (\<lambda>v. partner_search W v (soup_text W html)) VENDOR_PARTNERS)))"

definition detect_sectors :: "pylib \<Rightarrow> web \<Rightarrow> string \<Rightarrow> string list" where
  "detect_sectors Lib W html =
     take 20 (filter (\<lambda>t. list_ex (\<lambda>k. py_contains k t) sector_words)
                (map (str_lower Lib) (headline_texts W html)))"

definition empty_context :: company_context where
  "empty_context =
     \<lparr>size_hint = None, sectors = [], technologies = [], partners = [],
      recent_projects = [], languages = []\<rparr>"

text \<open>An update of \<open>lead.context\<close>, which is set when the pages of a lead are visited.\<close>

definition with_context :: "(company_context \<Rightarrow> company_context) \<Rightarrow> lead \<Rightarrow> lead" where
  "with_context f l = l\<lparr>lead_context := map_option f (lead_context l)\<rparr>"

definition add_stacks :: "web \<Rightarrow> string \<Rightarrow> lead \<Rightarrow> lead" where
  "add_stacks W html l =
     l\<lparr>stack_tags := union_into (stack_tags l) (detect_stacks_extended W (soup_text W html))\<rparr>"

definition linkedin_contact :: "string \<Rightarrow> string \<Rightarrow> contact" where
  "linkedin_contact s_url u =
     \<lparr>c_name = None, c_role = None, c_email = None, c_linkedin = Some s_url,
      c_page_url = Some u\<rparr>"

definition add_linkedin :: "string \<Rightarrow> lead \<Rightarrow> string \<Rightarrow> lead" where
  "add_linkedin u l s_url =
     (if py_contains ''linkedin.com'' s_url
         \<and> \<not> list_ex (\<lambda>c. c_linkedin c = Some s_url) (contacts l)
      then l\<lparr>contacts := contacts l @ [linkedin_contact s_url u]\<rparr>
      else l)"

definition add_org :: "string \<Rightarrow> lead \<Rightarrow> org \<Rightarrow> lead" where
  "add_org u l g =
     foldl (add_linkedin u)
       (with_context (\<lambda>c. if truthy (org_size g) \<and> \<not> truthy (size_hint c)
                           then c\<lparr>size_hint := org_size g\<rparr> else c) l)
       (org_same_as g)"

definition add_orgs :: "web \<Rightarrow> string \<Rightarrow> string \<Rightarrow> lead \<Rightarrow> lead" where
  "add_orgs W u html l = foldl (add_org u) l (jsonld_orgs W html)"

definition add_languages :: "pylib \<Rightarrow> web \<Rightarrow> string \<Rightarrow> lead \<Rightarrow> lead" where
  "add_languages Lib W html l =
     with_context
       (\<lambda>c. c\<lparr>languages := union_into (languages c) (detect_languages Lib W html)\<rparr>) l"

definition add_partners_sectors :: "pylib \<Rightarrow> web \<Rightarrow> string \<Rightarrow> lead \<Rightarrow> lead" where
  "add_partners_sectors Lib W html l =
     with_context (\<lambda>c. c\<lparr>partners := union_into (partners c) (detect_partners W html),
                          sectors := union_into (sectors c) (detect_sectors Lib W html)\<rparr>) l"

text \<open>The duplicate test of lines 1185 and 1210.\<close>

definition contact_dup :: "contact \<Rightarrow> contact \<Rightarrow> bool" where
  "contact_dup c x \<longleftrightarrow>
     (truthy (c_email c) \<and> c_email x = c_email c)
     \<or> (truthy (c_linkedin c) \<and> c_linkedin x = c_linkedin c)
     \<or> (truthy (c_name c) \<and> c_name x = c_name c)"

definition add_contact :: "contact list \<Rightarrow> contact \<Rightarrow> contact list" where
  "add_contact cs c = (if list_ex (contact_dup c) cs then cs else cs @ [c])"

definition add_contacts :: "web \<Rightarrow> string \<Rightarrow> string \<Rightarrow> lead \<Rightarrow> lead" where
  "add_contacts W u html l =
     l\<lparr>contacts := foldl add_contact (contacts l) (take 30 (extract_contacts_from_soup W u html))\<rparr>"

definition add_phone :: "web \<Rightarrow> string \<Rightarrow> lead \<Rightarrow> lead" where
  "add_phone W html l =
     (if truthy (phone l) then l
      else (case phone_match W (soup_text W html) of
              Some m \<Rightarrow> l\<lparr>phone := Some m\<rparr> | None \<Rightarrow> l))"

definition add_project :: "pylib \<Rightarrow> string list \<Rightarrow> string \<Rightarrow> string list" where
  "add_project Lib ps title =
     (if list_ex (\<lambda>k. py_contains k (str_lower Lib title)) project_words
         \<and> length ps < 20 \<and> title \<notin> set ps
      then ps @ [title] else ps)"

definition add_projects :: "pylib \<Rightarrow> web \<Rightarrow> string \<Rightarrow> lead \<Rightarrow> lead" where
  "add_projects Lib W html l =
     with_context (\<lambda>c. c\<lparr>recent_projects :=
                            foldl (add_project Lib) (recent_projects c) (h123_texts W html)\<rparr>) l"

text \<open>The body of the loop over the base pages (lines 1155-1187).\<close>

definition visit_base ::
  "pylib \<Rightarrow> web \<Rightarrow> env \<Rightarrow> nat \<Rightarrow> lead \<times> http_state \<times> (rat \<times> string) list \<Rightarrow> string
     \<Rightarrow> lead \<times> http_state \<times> (rat \<times> string) list" where
  "visit_base Lib W E d acc u =
     (case acc of
        (l, h, scored) \<Rightarrow>
          (case fetch Lib E d h u of
             (html, h') \<Rightarrow>
               if html = [] then (l, h', scored)
               else (add_contacts W u html
                       (add_partners_sectors Lib W html
                          (add_languages Lib W html (add_orgs W u html (add_stacks W html l)))),
                     h', scored @ candidate_links W u html)))"

text \<open>What a ranked page adds to the lead (lines 1204-1231).\<close>

definition visit_page :: "pylib \<Rightarrow> web \<Rightarrow> string \<Rightarrow> string \<Rightarrow> lead \<Rightarrow> lead" where
  "visit_page Lib W url html l =
     add_projects Lib W html
       (add_partners_sectors Lib W html
          (add_languages Lib W html
             (add_phone W html (add_contacts W url html (add_stacks W html l)))))"

definition off_domain :: "pylib \<Rightarrow> string \<Rightarrow> string \<Rightarrow> bool" where
  "off_domain Lib url site =
     (case netloc_of Lib url of
        Inl e \<Rightarrow> False
      | Inr a \<Rightarrow>
          a \<noteq> [] \<and> (case netloc_of Lib site of Inl e \<Rightarrow> False | Inr b \<Rightarrow> a \<noteq> b))"

text \<open>
  The loop over the ranked links (lines 1190-1231); the state is the lead, the client,
  and the local and global sets of visited URLs.
\<close>

fun visit_links ::
  "pylib \<Rightarrow> web \<Rightarrow> env \<Rightarrow> nat \<Rightarrow> int \<Rightarrow> bool \<Rightarrow> (rat \<times> string) list
     \<Rightarrow> lead \<times> http_state \<times> string list \<times> string list
     \<Rightarrow> lead \<times> http_state \<times> string list \<times> string list" where
  "visit_links Lib W E d max_pages same_domain [] st = st"
| "visit_links Lib W E d max_pages same_domain ((sc, url) # rest) (l, h, vl, vg) =
     (if int (length vl) \<ge> max_pages then (l, h, vl, vg)
      else if same_domain \<and> truthy (website l) \<and> off_domain Lib url (str_opt (website l))
      then visit_links Lib W E d max_pages same_domain rest (l, h, vl, vg)
      else if url \<in> set vl \<or> url \<in> set vg
      then visit_links Lib W E d max_pages same_domain rest (l, h, vl, vg)
      else (case fetch Lib E d h url of
              (html, h') \<Rightarrow>
                visit_links Lib W E d max_pages same_domain rest
                  (if html = [] then l else visit_page Lib W url html l,
                   h', vl @ [url], vg @ [url])))"

text \<open>The caps at the end of the pass over one lead (lines 1233-1239).\<close>

definition cap_lead :: "rat \<Rightarrow> lead \<Rightarrow> lead" where
  "cap_lead now l =
     (with_context
        (\<lambda>c. c\<lparr>partners := take 25 (partners c), sectors := take 25 (sectors c),
               recent_projects := take 25 (recent_projects c),
               technologies :=
                 sort (remdups (technologies c @ filter (\<lambda>t. t \<noteq> []) (stack_tags l)))\<rparr>)
        (l\<lparr>contacts := take 50 (contacts l)\<rparr>))
     \<lparr>last_seen := now\<rparr>"

definition base_urls_of :: "lead \<Rightarrow> string list" where
  "base_urls_of l =
     filter (\<lambda>u. u \<noteq> [])
       (concat (map (\<lambda>s. if truthy (hit_source_url s) then [or_empty (hit_source_url s)] else [])
                  (sources l))
        @ (if truthy (website l) then [str_opt (website l)] else []))"

text \<open>The body of the loop over the targets (lines 1137-1239).\<close>

definition deep_lead ::
  "pylib \<Rightarrow> web \<Rightarrow> env \<Rightarrow> nat \<Rightarrow> rat \<Rightarrow> int \<Rightarrow> bool \<Rightarrow> lead \<Rightarrow> http_state \<Rightarrow> string list
     \<Rightarrow> lead \<times> http_state \<times> string list" where
  "deep_lead Lib W E d now max_pages same_domain l h vg =
     (if base_urls_of l = [] then (l, h, vg)
      else
        (let l0 = (if lead_context l = None then l\<lparr>lead_context := Some empty_context\<rparr> else l);
             pages = filter (\<lambda>u. u \<notin> set vg) (base_urls_of l)
         in case foldl (visit_base Lib W E d) (l0, h, []) pages of
              (l1, h1, scored) \<Rightarrow>
                (case visit_links Lib W E d max_pages same_domain
                        (sort_key (\<lambda>x. - fst x) scored) (l1, h1, [], vg) of
                   (l2, h2, vl, vg') \<Rightarrow> (cap_lead now l2, h2, vg'))))"

record deep_enrich_request =
  priorities :: "priority list"
  max_leads :: int
  max_pages_per_lead :: int
  same_domain_only :: bool

text \<open>\<open>xs[:n]\<close> for an integer \<open>n\<close>.\<close>

definition py_take :: "int \<Rightarrow> 'a list \<Rightarrow> 'a list" where
  "py_take n xs = (if 0 \<le> n then take (nat n) xs else take (length xs - nat (- n)) xs)"

text \<open>The targets (lines 1132-1134), by their keys in the store.\<close>

definition deep_targets :: "deep_enrich_request \<Rightarrow> lead_store \<Rightarrow> string list" where
  "deep_targets req L =
     map fst
       (py_take (max_leads req)
          (sort_key (\<lambda>(cid, l). (- score l, country l, company_name l))
             (filter (\<lambda>(cid, l). case priority_class l of
                                    Some p \<Rightarrow> p \<in> set (priorities req) | None \<Rightarrow> False) L)))"

fun deep_all ::
  "pylib \<Rightarrow> web \<Rightarrow> env \<Rightarrow> nat \<Rightarrow> rat \<Rightarrow> int \<Rightarrow> bool \<Rightarrow> string list
     \<Rightarrow> lead_store \<times> http_state \<times> string list \<Rightarrow> lead_store \<times> http_state \<times> string list" where
  "deep_all Lib W E d now max_pages same_domain [] st = st"
| "deep_all Lib W E d now max_pages same_domain (cid # rest) (L, h, vg) =
     (case map_of L cid of
        None \<Rightarrow> deep_all Lib W E d now max_pages same_domain rest (L, h, vg)
      | Some l \<Rightarrow>
          (case deep_lead Lib W E d now max_pages same_domain l h vg of
             (l', h', vg') \<Rightarrow>
               deep_all Lib W E d now max_pages same_domain rest
                 (AList.update cid l' L, h', vg')))"

text \<open>\<open>str(n)\<close> for a natural number.\<close>

function show_nat :: "nat \<Rightarrow> string" where
  "show_nat n =
     (if n < 10 then [''0123456789'' ! n] else show_nat (n div 10) @ [''0123456789'' ! (n mod 10)])"
  by pat_completeness auto
termination
  by (relation "measure id") auto

text \<open>The endpoint \<open>enrich_deep(req)\<close>; \<open>jid\<close> is \<open>req.job_id\<close>.\<close>

definition enrich_deep ::
  "pylib \<Rightarrow> web \<Rightarrow> env \<Rightarrow> nat \<Rightarrow> rat \<Rightarrow> string \<Rightarrow> deep_enrich_request \<Rightarrow> state
     \<Rightarrow> job_accepted \<times> state" where
  "enrich_deep Lib W E d now jid req s =
     (let targets = deep_targets req (LEADS s)
      in case deep_all Lib W E d now (max_pages_per_lead req) (same_domain_only req) targets
                (LEADS s, HTTP s, []) of
           (L', h', vg) \<Rightarrow>
             ((jid, Enriched),
              s\<lparr>LEADS := L', HTTP := h',
                JOBS := (case JOBS s jid of
                           None \<Rightarrow> JOBS s
                         | Some job \<Rightarrow>
                             (JOBS s)(jid \<mapsto>
                               job\<lparr>status := Enriched, updated_at := Some now,
                                   message := Some (or_empty (message job)
                                     @ '' deep_enrich targets='' @ show_nat (length targets))\<rparr>))\<rparr>))"

section \<open>Properties\<close>

subsection \<open>Upserting candidates\<close>

lemma acme_raw: "company_raw ascii_lib None ''Acme'' ''DK'' = Inr ''acme|acme|DK''"
  by code_simp

lemma acme_etg_id: "rc_company_id ascii_lib acme_etg = Inr acme_id"
  by (simp add: rc_company_id_def acme_etg_def company_id_from_def acme_raw acme_id_def)

lemma acme_siemens_id: "rc_company_id ascii_lib acme_siemens = Inr acme_id"
  by (simp add: rc_company_id_def acme_siemens_def company_id_from_def acme_raw acme_id_def)

lemma validate_none: "validate_website Lib None = Inr None"
  by (simp add: validate_website_def)

lemma acme_etg_site: "rc_website acme_etg = None"
  by (simp add: acme_etg_def)

lemma acme_step1:
  "upsert_lead_from_raw ascii_lib t1 acme_etg [] =
     Inr ([(acme_id, new_lead t1 acme_id acme_etg None)], new_lead t1 acme_id acme_etg None)"
  by (simp add: upsert_lead_from_raw_def acme_etg_id Let_def acme_etg_site validate_none)

lemma acme_step2:
  "upsert_lead_from_raw ascii_lib t2 acme_siemens [(acme_id, l)] =
     Inr ([(acme_id, merge_lead l acme_siemens)], merge_lead l acme_siemens)"
  by (simp add: upsert_lead_from_raw_def acme_siemens_id Let_def)

lemma acme_final:
  "merge_lead (new_lead t1 acme_id acme_etg None) acme_siemens =
     (new_lead t1 acme_id acme_etg None)
       \<lparr>sources := [source_hit_of acme_etg, source_hit_of acme_siemens],
        stack_tags := [''EtherCAT'', ''PROFINET'', ''TIA'']\<rparr>"
  by (simp add: merge_lead_def new_lead_def acme_etg_def acme_siemens_def truthy_def
      union_into_def append_if_absent_def base_stacks_def)

text \<open>
  Claim C2. Upserting the candidate (Acme, DK, ETG) into an empty store and then the
  candidate (Acme, DK, SIEMENS) returns both times, both candidates have the same company
  id, and the store then holds a single lead. Its \<open>sources\<close> has length 2, the hits of
  ETG and of SIEMENS in this order; its \<open>stack_tags\<close> are EtherCAT, PROFINET and TIA. The
  lead that the first upsert creates has the segment OEM, the default of ETG; the default
  of the second candidate's source is SI, and the lead after the second upsert still has
  the segment OEM.
\<close>

theorem acme_scenario:
  "\<exists>s1 l1 l2.
     upsert_lead_from_raw ascii_lib t1 acme_etg [] = Inr (s1, l1)
     \<and> upsert_lead_from_raw ascii_lib t2 acme_siemens s1 = Inr ([(acme_id, l2)], l2)
     \<and> s1 = [(acme_id, l1)]
     \<and> rc_company_id ascii_lib acme_etg = Inr acme_id
     \<and> rc_company_id ascii_lib acme_siemens = Inr acme_id
     \<and> length (sources l2) = 2
     \<and> map hit_name (sources l2) = [ETG, SIEMENS]
     \<and> ''EtherCAT'' \<in> set (stack_tags l2)
     \<and> ''PROFINET'' \<in> set (stack_tags l2)
     \<and> ''TIA'' \<in> set (stack_tags l2)
     \<and> stack_tags l2 = [''EtherCAT'', ''PROFINET'', ''TIA'']
     \<and> segment l1 = Some OEM
     \<and> rc_source acme_siemens = SIEMENS
     \<and> default_segment SIEMENS = SI
     \<and> default_segment ETG = OEM
     \<and> segment l2 = Some OEM"
proof -
  let ?l1 = "new_lead t1 acme_id acme_etg None"
  let ?l2 = "merge_lead ?l1 acme_siemens"
  have seg1: "segment ?l1 = Some OEM"
    by (simp add: new_lead_def acme_etg_def default_segment_def)
  have seg2: "segment ?l2 = Some OEM"
    by (simp add: acme_final) (simp add: new_lead_def acme_etg_def default_segment_def)
  have src: "length (sources ?l2) = 2" "map hit_name (sources ?l2) = [ETG, SIEMENS]"
    by (simp_all add: acme_final) (simp_all add: source_hit_of_def acme_etg_def acme_siemens_def)
  have tags: "stack_tags ?l2 = [''EtherCAT'', ''PROFINET'', ''TIA'']"
    by (simp add: acme_final)
  have dflt: "rc_source acme_siemens = SIEMENS" "default_segment SIEMENS = SI"
    "default_segment ETG = OEM"
    by (simp_all add: acme_siemens_def default_segment_def)
  show ?thesis
    using acme_step1 [of t1] acme_step2 [of t2 ?l1] acme_etg_id acme_siemens_id
      seg1 seg2 src tags dflt
    by (intro exI [of _ "[(acme_id, ?l1)]"] exI [of _ ?l1] exI [of _ ?l2]) simp
qed

subsection \<open>Scoring twice\<close>

lemma score_lead_idem: "score_lead (score_lead l) = score_lead l"
  by (simp add: score_lead_def Let_def raw_score_def max_strength_def stack_points_def
      reasons_of_def has_source_def pitch_of_def)

text \<open>
  Claim C8. Running \<open>score\<close> twice in a row leaves the lead store after the second run
  equal to the store after the first run: in particular every lead's \<open>score\<close>,
  \<open>priority_class\<close>, \<open>reason\<close> and \<open>pitch\<close> are the same.
\<close>

theorem score_idempotent:
  "LEADS (snd (score_op t2 jid2 (snd (score_op t1 jid1 s)))) = LEADS (snd (score_op t1 jid1 s))"
  by (simp add: score_op_def score_lead_idem case_prod_unfold comp_def)

subsection \<open>Candidates of one company\<close>

























subsection \<open>The score of a lead\<close>







lemma score_lead_frame:
  "sources (score_lead l) = sources l" "stack_tags (score_lead l) = stack_tags l"
  "score (score_lead l) = raw_score l"
  "priority_class (score_lead l) = Some (priority_of (raw_score l))"
  by (simp_all add: score_lead_def Let_def)



lemma upsert_strengths_scored: "upsert_strengths (score_lead l) = upsert_strengths l"
  by (simp add: upsert_strengths_def score_lead_frame)






text \<open>Upserting keeps the strength constants of the hits of every stored lead.\<close>

lemma set_update_cases:
  "(k', v') \<in> set (AList.update k v al) \<Longrightarrow> (k', v') = (k, v) \<or> (k', v') \<in> set al"
  by (induction al) (auto split: if_splits)

lemma upsert_strengths_new: "upsert_strengths (new_lead now cid rc site)"
  by (simp add: upsert_strengths_def new_lead_def source_hit_of_def)

lemma upsert_strengths_merge: "upsert_strengths l \<Longrightarrow> upsert_strengths (merge_lead l rc)"
  by (simp add: upsert_strengths_def merge_lead_def source_hit_of_def)

lemma upsert_keeps_strengths:
  assumes "\<forall>(k, l)\<in>set L. upsert_strengths l"
    and "upsert_lead_from_raw Lib now rc L = Inr (L', lead)"
  shows "\<forall>(k, l)\<in>set L'. upsert_strengths l"
proof -
  from assms(2) obtain cid where cid: "rc_company_id Lib rc = Inr cid"
    by (auto simp: upsert_lead_from_raw_def split: sum.splits)
  show ?thesis
  proof (cases "map_of L cid")
    case None
    with assms(2) cid obtain site where "L' = AList.update cid (new_lead now cid rc site) L"
      by (auto simp: upsert_lead_from_raw_def Let_def split: sum.splits)
    with assms(1) show ?thesis
      by (auto dest!: set_update_cases simp: upsert_strengths_new)
  next
    case (Some l0)
    with assms(2) cid have L': "L' = AList.update cid (merge_lead l0 rc) L"
      by (auto simp: upsert_lead_from_raw_def Let_def)
    from Some have "(cid, l0) \<in> set L"
      by (rule map_of_SomeD)
    with assms(1) have "upsert_strengths (merge_lead l0 rc)"
      by (auto intro: upsert_strengths_merge)
    with assms(1) L' show ?thesis
      by (auto dest!: set_update_cases)
  qed
qed

subsection \<open>The fetcher\<close>

lemma head_index:
  "urlparse ascii_lib ''http://example.com/index.html'' = Inr (''http'', ''example.com'')"
  by code_simp

lemma robots_url_example:
  "urljoin ascii_lib (''http'' @ ''://'' @ ''example.com'') ''/robots.txt''
     = Inr ''http://example.com/robots.txt''"
  by code_simp

lemma contains_private: "py_contains ''Disallow: /'' robots_private"
  by code_simp

lemma not_blanket_private: "\<not> blanket_disallow ascii_lib robots_private"
  by code_simp

text \<open>
  Claim C10. For a URL that is in the response cache, \<open>get\<close> with \<open>cache_ok=True\<close>
  returns the cached body and leaves the whole state of the client as it was: no request
  is logged, no rate bucket is read or advanced, the clock does not move, and the robots
  policy is not looked at, so the body is returned also for a host whose policy would
  refuse the fetch.
\<close>

theorem get_cached:
  "cache st url = Some body \<Longrightarrow> get Lib E (Suc d) url True st = (Inr body, st)"
  by simp

theorem get_cached_witness:
  "cache http_example ''http://example.com/about'' = Some ''<html>about</html>''
   \<and> py_contains ''Disallow: /'' (the (robots_cache http_example ''http://example.com/robots.txt''))
   \<and> get ascii_lib quiet_env (Suc 0) ''http://example.com/about'' True http_example
       = (Inr ''<html>about</html>'', http_example)"
proof -
  have c: "cache http_example ''http://example.com/about'' = Some ''<html>about</html>''"
    by (simp add: http_example_def)
  have "robots_cache http_example ''http://example.com/robots.txt'' = Some robots_private"
    by (simp add: http_example_def)
  with c get_cached [OF c, of ascii_lib quiet_env 0] contains_private show ?thesis
    by simp
qed

lemma netloc_of_head:
  "urlparse Lib url = Inr (scheme, host) \<Longrightarrow> netloc_of Lib url = Inr host"
  by (simp add: netloc_of_def)

lemma get_loop_prefix: "prefix (requests st) (requests (snd (get_loop E url host c i n st)))"
proof (induction n arbitrary: i st)
  case 0
  then show ?case by simp
next
  case (Suc n)
  have IH: "prefix (requests st) (requests (snd (get_loop E url host c i' n st')))"
    if "requests st' = requests st @ [url]" for st' i'
    using Suc [of st' i'] that by (auto dest: append_prefixD)
  show ?case
    by (simp add: Let_def IH split: prod.splits http_outcome.splits)
qed

lemma get_loop_first:
  "take (Suc (length (requests st))) (requests (snd (get_loop E url host c i (Suc n) st)))
     = requests st @ [url]"
proof -
  have step: "take (Suc (length (requests st))) (requests (snd (get_loop E url host c i' n st')))
      = requests st @ [url]"
    if "requests st' = requests st @ [url]" for st' i'
  proof -
    from get_loop_prefix [of st' E url host c i' n] that
    obtain zs where "requests (snd (get_loop E url host c i' n st')) = (requests st @ [url]) @ zs"
      by (auto simp: prefix_def)
    then show ?thesis by simp
  qed
  show ?thesis
    by (simp add: Let_def step split: prod.splits http_outcome.splits)
qed

lemma get_loop_error:
  "fst (get_loop E url host c i n st) = Inl e \<Longrightarrow>
     e = RuntimeError (''GET failed after retries: '' @ url)"
proof (induction n arbitrary: i st)
  case 0
  then show ?case by simp
next
  case (Suc n)
  then show ?case
    by (auto simp: Let_def split: prod.splits http_outcome.splits if_splits)
qed

lemma robots_cached:
  assumes "respect_robots st" and "urlparse Lib url = Inr (scheme, host)"
    and "urljoin Lib (scheme @ ''://'' @ host) ''/robots.txt'' = Inr robots_url"
    and "robots_cache st robots_url = Some policy"
  shows "robots_allowed Lib E (Suc d) url st = (Inr (\<not> py_contains ''Disallow: /'' policy), st)"
  using assms by simp

lemma robots_off: "\<not> respect_robots st \<Longrightarrow> robots_allowed Lib E (Suc d) url st = (Inr True, st)"
  by simp

text \<open>
  The gate with the policy of the host in the robots cache, for a URL that is not served
  from the response cache: \<open>get\<close> raises the robots error, with no request made and the
  state unchanged, exactly when the policy text contains the substring \<open>Disallow: /\<close>;
  otherwise, and whenever robots compliance is disabled, \<open>get\<close> is its retry loop, whose
  first request is for the URL and which never raises the robots error.
\<close>

lemma robots_gate:
  assumes parsed: "urlparse Lib url = Inr (scheme, host)"
    and joined: "urljoin Lib (scheme @ ''://'' @ host) ''/robots.txt'' = Inr robots_url"
    and uncached: "(if cache_ok then cache st url else None) = None"
  shows "(respect_robots st \<and> robots_cache st robots_url = Some policy \<longrightarrow>
            get Lib E (Suc (Suc d)) url cache_ok st =
              (if py_contains ''Disallow: /'' policy
               then (Inl (RuntimeError (''robots disallow for '' @ host)), st)
               else get_loop E url host cache_ok 0 MAX_RETRIES st))
       \<and> (\<not> respect_robots st \<longrightarrow>
            get Lib E (Suc (Suc d)) url cache_ok st = get_loop E url host cache_ok 0 MAX_RETRIES st)
       \<and> fst (get_loop E url host cache_ok 0 MAX_RETRIES st)
            \<noteq> Inl (RuntimeError (''robots disallow for '' @ host))
       \<and> take (Suc (length (requests st)))
            (requests (snd (get_loop E url host cache_ok 0 MAX_RETRIES st)))
          = requests st @ [url]"
proof (intro conjI impI)
  assume "respect_robots st \<and> robots_cache st robots_url = Some policy"
  then show "get Lib E (Suc (Suc d)) url cache_ok st =
      (if py_contains ''Disallow: /'' policy
       then (Inl (RuntimeError (''robots disallow for '' @ host)), st)
       else get_loop E url host cache_ok 0 MAX_RETRIES st)"
    using uncached parsed netloc_of_head [OF parsed]
      robots_cached [of st Lib url scheme host robots_url policy E d] joined
    by (simp del: robots_allowed.simps)
next
  assume "\<not> respect_robots st"
  then show "get Lib E (Suc (Suc d)) url cache_ok st
      = get_loop E url host cache_ok 0 MAX_RETRIES st"
    using uncached netloc_of_head [OF parsed] robots_off [of st Lib E d url]
    by (simp del: robots_allowed.simps)
next
  show "fst (get_loop E url host cache_ok 0 MAX_RETRIES st)
      \<noteq> Inl (RuntimeError (''robots disallow for '' @ host))"
    using get_loop_error [of E url host cache_ok 0 MAX_RETRIES st] by auto
next
  show "take (Suc (length (requests st)))
      (requests (snd (get_loop E url host cache_ok 0 MAX_RETRIES st))) = requests st @ [url]"
    using get_loop_first [of st E url host cache_ok 0 4] by (simp add: MAX_RETRIES_def eval_nat_numeral)
qed

text \<open>
  Claim C5 does not hold of the code: the test of \<open>robots_allowed\<close> is whether the policy
  text contains \<open>Disallow: /\<close>, and every rule that disallows a path contains it. The
  client \<open>http_example\<close> has robots compliance enabled and holds, for \<open>example.com\<close>, the
  policy whose only rule is \<open>Disallow: /private\<close>, which has no blanket disallow. The
  fetch of \<open>http://example.com/index.html\<close>, which is not in the response cache, is
  refused with the robots error; no request is made and the state is unchanged.
\<close>

theorem robots_path_specific_refused:
  "respect_robots http_example
   \<and> cache http_example ''http://example.com/index.html'' = None
   \<and> robots_cache http_example ''http://example.com/robots.txt'' = Some robots_private
   \<and> robots_private = ''User-agent: *'' @ [CHR 0x0A] @ ''Disallow: /private''
   \<and> \<not> blanket_disallow ascii_lib robots_private
   \<and> get ascii_lib quiet_env (Suc (Suc d)) ''http://example.com/index.html'' True http_example
       = (Inl (RuntimeError ''robots disallow for example.com''), http_example)
   \<and> requests http_example = []"
proof -
  have st: "respect_robots http_example"
    "cache http_example ''http://example.com/index.html'' = None"
    "robots_cache http_example ''http://example.com/robots.txt'' = Some robots_private"
    "requests http_example = []"
    by (simp_all add: http_example_def)
  have "robots_allowed ascii_lib quiet_env (Suc d) ''http://example.com/index.html'' http_example
      = (Inr False, http_example)"
    using robots_cached [OF st(1) head_index robots_url_example st(3), of quiet_env d]
      contains_private
    by simp
  then have "get ascii_lib quiet_env (Suc (Suc d)) ''http://example.com/index.html'' True
        http_example
       = (Inl (RuntimeError ''robots disallow for example.com''), http_example)"
    using st netloc_of_head [OF head_index] by (simp del: robots_allowed.simps)
  with st not_blanket_private show ?thesis
    by (simp add: robots_private_def)
qed

subsection \<open>Scan jobs\<close>

text \<open>
  Claim C6 says that every scan request drives its job to the status \<open>scanned\<close>. The
  code does not: for a request none of whose sources is registered (here: no source at
  all) the worker pool is asked for \<open>min(MAX_WORKERS, 0 * max(1, len(countries))) = 0\<close>
  workers, \<open>ThreadPoolExecutor\<close> raises \<open>ValueError\<close>, and the job stays \<open>running\<close>
  as it was registered. (The guard \<open>max(1, ...)\<close> covers an empty list of countries
  only.)
\<close>

theorem start_scan_no_sources:
  "start_scan Lib S jid t0 t1 req_no_sources s =
     (Inl (ValueError ''max_workers must be greater than 0''),
      s\<lparr>JOBS := (JOBS s)(jid \<mapsto> new_job jid t0)\<rparr>)
   \<and> status (new_job jid t0) = Running"
  by (simp add: start_scan_def req_no_sources_def expand_sources_def Let_def MAX_WORKERS_def
      new_job_def)

text \<open>
  The loop over the completed tasks is not guarded either: a returned row whose website
  \<open>urlparse\<close> rejects makes \<open>upsert_lead_from_raw\<close> raise, which ends \<open>start_scan\<close>
  with the job still \<open>running\<close>.
\<close>

lemma countries_dk: "expand_countries ascii_lib [''DK''] = [''DK'']"
  by code_simp

lemma sources_etg: "expand_sources ascii_lib [''ETG''] = [ETG]"
  by code_simp

lemma bad_site_raises: "rc_company_id ascii_lib bad_site_row = Inl (ValueError ''Invalid IPv6 URL'')"
  by code_simp

lemma bad_site_task: "scan_task bad_site_env (ETG, ''DK'') = ([bad_site_row], None)"
  by (simp add: scan_task_def MAX_RETRIES_def eval_nat_numeral bad_site_env_def)

lemma start_scan_bad_row:
  "start_scan ascii_lib bad_site_env jid t0 t1 req_etg_dk s =
     (Inl (ValueError ''Invalid IPv6 URL''), s\<lparr>JOBS := (JOBS s)(jid \<mapsto> new_job jid t0)\<rparr>)"
proof -
  have task: "consume_task ascii_lib bad_site_env t1 (Suc 0) (ETG, ''DK'') acc =
      (Some (ValueError ''Invalid IPv6 URL''), acc)" for acc
    by (simp add: consume_task_def bad_site_task truthy_def upsert_lead_from_raw_def
        bad_site_raises)
  have ord: "as_completed bad_site_env ts = ts" for ts
    by (simp add: bad_site_env_def)
  show ?thesis
    by (simp add: start_scan_def req_etg_dk_def countries_dk sources_etg Let_def
        MAX_WORKERS_def ord task)
qed

lemma upsert_returns:
  "row_ok Lib rc \<Longrightarrow> \<exists>L' lead. upsert_lead_from_raw Lib now rc L = Inr (L', lead)"
  by (auto simp: row_ok_def website_ok_def upsert_lead_from_raw_def Let_def
      split: option.splits sum.splits)

lemma upsert_rows_ok:
  assumes "\<forall>rc\<in>set rows. row_ok Lib rc"
  shows "\<exists>L'. upsert_rows Lib now rows L n = (None, L', n + int (length rows))"
  using assms
proof (induction rows arbitrary: L n)
  case Nil
  then show ?case by simp
next
  case (Cons rc rows)
  then have "row_ok Lib rc" by auto
  from upsert_returns [OF this, of now L] obtain L1 lead where
    "upsert_lead_from_raw Lib now rc L = Inr (L1, lead)" by blast
  moreover from Cons obtain L' where
    "upsert_rows Lib now rows L1 (n + 1) = (None, L', n + 1 + int (length rows))" by fastforce
  ultimately show ?case by simp
qed

lemma scan_task_loop_err:
  "scan_task_loop S src c i n last_err = (rows, Some e) \<Longrightarrow> rows = [] \<and> e \<noteq> []"
proof (induction n arbitrary: i last_err)
  case 0
  then show ?case by (auto simp: truthy_def or_empty_def split: option.splits if_splits)
next
  case (Suc n)
  then show ?case by (auto split: sum.splits)
qed

lemma scan_task_loop_exhausted:
  "\<forall>k<n. \<exists>e. adapter_scan S src c (i + k) = Inl e \<Longrightarrow>
     \<exists>e. scan_task_loop S src c i n last_err = ([], Some e) \<and> e \<noteq> []"
proof (induction n arbitrary: i last_err)
  case 0
  then show ?case by (simp add: truthy_def or_empty_def split: option.splits)
next
  case (Suc n)
  from Suc.prems [rule_format, of 0] obtain e where e: "adapter_scan S src c i = Inl e"
    by auto
  have "\<forall>k<n. \<exists>e. adapter_scan S src c (Suc i + k) = Inl e"
    using Suc.prems [rule_format, of "Suc _"] by simp
  from Suc.IH [OF this] e show ?case by simp
qed

lemma consume_task_ok:
  assumes rows: "\<forall>rc\<in>set (fst (scan_task S task)). row_ok Lib rc"
  shows "\<exists>acc'. consume_task Lib S now k task acc = (None, acc')
           \<and> acc_errors acc' = acc_errors acc + (if snd (scan_task S task) = None then 0 else 1)
           \<and> acc_found acc' = acc_found acc + int (length (fst (scan_task S task)))"
proof (cases "scan_task S task")
  case (Pair rows err)
  show ?thesis
  proof (cases err)
    case None
    from rows Pair upsert_rows_ok [of rows Lib now "acc_leads acc" "acc_found acc"] obtain L' where
      "upsert_rows Lib now rows (acc_leads acc) (acc_found acc)
         = (None, L', acc_found acc + int (length rows))"
      by auto
    with Pair None show ?thesis
      by (simp add: consume_task_def truthy_def Let_def)
  next
    case (Some e)
    with Pair have "rows = []" "e \<noteq> []"
      using scan_task_loop_err [of S "fst task" "snd task" 0 MAX_RETRIES None rows e]
      by (simp_all add: scan_task_def)
    with Pair Some show ?thesis
      by (simp add: consume_task_def truthy_def Let_def)
  qed
qed

lemma consume_all_ok:
  assumes "\<forall>task\<in>set tasks. \<forall>rc\<in>set (fst (scan_task S task)). row_ok Lib rc"
  shows "\<exists>acc'. consume_all Lib S now k tasks acc = (None, acc')
           \<and> acc_errors acc' =
               acc_errors acc + int (length (filter (\<lambda>t. snd (scan_task S t) \<noteq> None) tasks))
           \<and> acc_found acc' =
               acc_found acc + (\<Sum>t\<leftarrow>tasks. int (length (fst (scan_task S t))))"
  using assms
proof (induction tasks arbitrary: acc)
  case Nil
  then show ?case by simp
next
  case (Cons task tasks)
  from Cons.prems have "\<forall>rc\<in>set (fst (scan_task S task)). row_ok Lib rc"
    by simp
  from consume_task_ok [OF this, of now k acc] obtain acc1 where
    1: "consume_task Lib S now k task acc = (None, acc1)"
    "acc_errors acc1 = acc_errors acc + (if snd (scan_task S task) = None then 0 else 1)"
    "acc_found acc1 = acc_found acc + int (length (fst (scan_task S task)))"
    by blast
  from Cons.prems have "\<forall>task\<in>set tasks. \<forall>rc\<in>set (fst (scan_task S task)).
      row_ok Lib rc"
    by simp
  from Cons.IH [OF this, of acc1] obtain acc' where
    2: "consume_all Lib S now k tasks acc1 = (None, acc')"
    "acc_errors acc' =
       acc_errors acc1 + int (length (filter (\<lambda>t. snd (scan_task S t) \<noteq> None) tasks))"
    "acc_found acc' = acc_found acc1 + (\<Sum>t\<leftarrow>tasks. int (length (fst (scan_task S t))))"
    by blast
  from 1 2 show ?case by simp
qed

text \<open>
  What holds of \<open>start_scan\<close>: when the request names a registered source and every
  returned row has a company id and a website that is absent or accepted by \<open>HttpUrl\<close>,
  the job ends \<open>scanned\<close>, with one error per task that failed (a task whose attempts
  have all raised has no rows) and every returned row found.
\<close>

lemma start_scan_completes:
  assumes srcs: "expand_sources Lib (req_sources req) \<noteq> []"
    and rows: "\<forall>task. \<forall>rc\<in>set (fst (scan_task S task)). row_ok Lib rc"
  shows "\<exists>s' job. start_scan Lib S jid t0 t1 req s = (Inr (jid, Scanned), s')
           \<and> JOBS s' jid = Some job \<and> status job = Scanned
           \<and> errors job =
               int (length (filter (\<lambda>t. snd (scan_task S t) \<noteq> None)
                 (as_completed S (concat (map (\<lambda>src. map (\<lambda>c. (src, c))
                    (expand_countries Lib (req_countries req))) (expand_sources Lib (req_sources req)))))))
           \<and> found job =
               (\<Sum>t\<leftarrow>as_completed S (concat (map (\<lambda>src. map (\<lambda>c. (src, c))
                    (expand_countries Lib (req_countries req))) (expand_sources Lib (req_sources req)))).
                  int (length (fst (scan_task S t))))"
proof -
  let ?cs = "expand_countries Lib (req_countries req)"
  let ?ss = "expand_sources Lib (req_sources req)"
  let ?tasks = "as_completed S (concat (map (\<lambda>src. map (\<lambda>c. (src, c)) ?cs) ?ss))"
  let ?acc0 = "\<lparr>acc_leads = LEADS s, acc_found = 0, acc_errors = 0,
      acc_done = foldl (\<lambda>al src. AList.update src 0 al) [] ?ss,
      acc_progress = foldl (\<lambda>al src. AList.update src 0 al) [] ?ss\<rparr>"
  from srcs have "0 < int (length ?ss) * max 1 (int (length ?cs))"
    by (simp add: zero_less_mult_iff)
  then have workers: "\<not> min MAX_WORKERS (int (length ?ss) * max 1 (int (length ?cs))) \<le> 0"
    by (simp add: MAX_WORKERS_def)
  from rows have "\<forall>task\<in>set ?tasks. \<forall>rc\<in>set (fst (scan_task S task)).
      row_ok Lib rc"
    by blast
  from consume_all_ok [OF this, of t1 "length ?cs" ?acc0] obtain acc' where
    "consume_all Lib S t1 (length ?cs) ?tasks ?acc0 = (None, acc')"
    "acc_errors acc' = int (length (filter (\<lambda>t. snd (scan_task S t) \<noteq> None) ?tasks))"
    "acc_found acc' = (\<Sum>t\<leftarrow>?tasks. int (length (fst (scan_task S t))))"
    by auto
  with workers show ?thesis
    by (simp add: start_scan_def Let_def)
qed

subsection \<open>Unknown job ids\<close>

lemma set_job_status_unknown: "jobs jid = None \<Longrightarrow> set_job_status now jid st jobs = jobs"
  by (simp add: set_job_status_def)

text \<open>
  \<open>enrich\<close> and \<open>score\<close> never read the job id in their loops: for a job id that is not
  in the registry they leave the registry as it was and treat the store and the client
  as they do for any other job id, \<open>score\<close> returns its success response, and \<open>enrich\<close>
  returns its success response or raises what it raises for any other job id.
\<close>

lemma unknown_job_same_as_known:
  assumes "JOBS s jid = None"
  shows "JOBS (snd (enrich Lib W E d now jid s)) = JOBS s
       \<and> LEADS (snd (enrich Lib W E d now jid s)) = LEADS (snd (enrich Lib W E d now jid' s))
       \<and> HTTP (snd (enrich Lib W E d now jid s)) = HTTP (snd (enrich Lib W E d now jid' s))
       \<and> length (LEADS (snd (enrich Lib W E d now jid s))) = length (LEADS s)
       \<and> (case fst (enrich Lib W E d now jid s) of
             Inr r \<Rightarrow> r = (jid, Enriched) \<and> fst (enrich Lib W E d now jid' s) = Inr (jid', Enriched)
           | Inl e \<Rightarrow> fst (enrich Lib W E d now jid' s) = Inl e)
       \<and> fst (score_op now jid s) = (jid, Scored)
       \<and> JOBS (snd (score_op now jid s)) = JOBS s
       \<and> LEADS (snd (score_op now jid s)) = LEADS (snd (score_op now jid' s))
       \<and> LEADS (snd (score_op now jid s)) = map (\<lambda>(cid, l). (cid, score_lead l)) (LEADS s)"
proof -
  have len: "enrich_all Lib W E d now L h = (r, L', h') \<Longrightarrow> length L' = length L"
    for L h r L' h'
    by (induction L arbitrary: h r L' h') (auto split: prod.splits sum.splits)
  obtain r L' h' where run: "enrich_all Lib W E d now (LEADS s) (HTTP s) = (r, L', h')"
    by (cases "enrich_all Lib W E d now (LEADS s) (HTTP s)") auto
  from len [OF run] have "length L' = length (LEADS s)" .
  with assms run show ?thesis
    by (cases r) (simp_all add: enrich_def score_op_def set_job_status_unknown)
qed

lemma about_sources:
  "sources about_lead
     = [\<lparr>hit_name = ETG, strength = 9 / 10, hit_source_url = Some ''http://example.com/about''\<rparr>]"
  "contact_url about_lead = None" "website about_lead = None" "contact_email about_lead = None"
  "stack_tags about_lead = [''EtherCAT'']"
  by (simp_all add: about_lead_def new_lead_def source_hit_of_def acme_etg_def src_strength_def
      base_stacks_def)

lemma about_fetch:
  "fetch Lib E (Suc d) http_example ''http://example.com/about''
     = (''<html>about</html>'', http_example)"
  by (simp add: fetch_def http_example_def)

lemma about_fetch_first:
  "fetch_first Lib E (Suc d) http_example (sources about_lead)
     = (''<html>about</html>'', http_example)"
  by (simp add: about_sources truthy_def or_empty_def about_fetch)





text \<open>
  With a contact link \<open>/contact\<close> on the same page, \<open>enrich\<close> called with the unknown job
  id returns its success response and leaves the registry empty. The lead has the
  contact URL joined from the source URL and the link, and the tag that the page adds;
  the contact page itself is not fetched, since the robots policy of the host contains
  \<open>Disallow: /\<close>.
\<close>

lemma contact_join:
  "urljoin ascii_lib ''http://example.com/about'' ''/contact'' = Inr ''http://example.com/contact''"
  by code_simp

lemma head_contact:
  "urlparse ascii_lib ''http://example.com/contact'' = Inr (''http'', ''example.com'')"
  by code_simp

lemma contact_fetch:
  "fetch ascii_lib E (Suc (Suc d)) http_example ''http://example.com/contact'' = ([], http_example)"
proof -
  have st: "respect_robots http_example"
    "cache http_example ''http://example.com/contact'' = None"
    "robots_cache http_example ''http://example.com/robots.txt'' = Some robots_private"
    by (simp_all add: http_example_def)
  have "robots_allowed ascii_lib E (Suc d) ''http://example.com/contact'' http_example
      = (Inr False, http_example)"
    using robots_cached [OF st(1) head_contact robots_url_example st(3), of E d] contains_private
    by simp
  then have "get ascii_lib E (Suc (Suc d)) ''http://example.com/contact'' True http_example
       = (Inl (RuntimeError ''robots disallow for example.com''), http_example)"
    using st netloc_of_head [OF head_contact] by (simp del: robots_allowed.simps)
  then show ?thesis
    by (simp add: fetch_def del: get.simps)
qed

lemma contact_follow:
  "follow_contact ascii_lib contact_web E (Suc (Suc d)) html about_lead http_example
     = (Inr (about_lead\<lparr>contact_url := Some ''http://example.com/contact''\<rparr>), http_example)"
  by (simp add: follow_contact_def about_sources truthy_def or_empty_def contact_web_def
      quiet_web_def contact_join contact_fetch Let_def del: get.simps)

lemma contact_stacks: "detect_stacks_extended contact_web body = [''TwinCAT'']"
  by (simp add: detect_stacks_extended_def contact_web_def quiet_web_def)

lemma enrich_unknown_job_example:
  "enrich ascii_lib contact_web quiet_env (Suc (Suc d)) 1 ''no-such-job'' about_state
     = (Inr (''no-such-job'', Enriched),
        about_state\<lparr>LEADS :=
          [(acme_id, about_lead\<lparr>contact_url := Some ''http://example.com/contact'',
                                 stack_tags := [''EtherCAT'', ''TwinCAT''],
                                 last_seen := 1\<rparr>)]\<rparr>)"
proof -
  have "enrich_lead ascii_lib contact_web quiet_env (Suc (Suc d)) 1 about_lead http_example
      = (Inr (about_lead\<lparr>contact_url := Some ''http://example.com/contact'',
                          stack_tags := [''EtherCAT'', ''TwinCAT''],
                          last_seen := 1\<rparr>), http_example)"
    by (simp add: enrich_lead_def about_fetch_first contact_follow contact_stacks Let_def
        del: get.simps)
      (simp add: about_sources union_into_def append_if_absent_def discover_website_def
        fallback_email_def truthy_def contact_web_def quiet_web_def)
  then show ?thesis
    by (simp add: enrich_def about_state_def set_job_status_def del: get.simps)
qed

end
